theory Spec2Isabelle
  imports Main "HOL-Library.Word"
begin

unbundle bit_operations_syntax

section \<open>Errors and the packet reader\<close>

text \<open>
  The token stream decoder of \<^verbatim>\<open>token.go\<close> reads from a \<^verbatim>\<open>tdsBuffer\<close>. Every parse
  abort of the source is a Go panic that \<^verbatim>\<open>processSingleResponse\<close> recovers and sends on
  the token channel. The constructors keep apart the values that a panic carries.
  \<^verbatim>\<open>badStreamPanic(err)\<close> panics with the error it is given, so a wire violation raised
  through it, through \<^verbatim>\<open>badStreamPanicf\<close> or with \<^verbatim>\<open>panic(fmt.Errorf(...))\<close> carries an
  error value of the same kind: BadStream. Called with a nil error it is \<^verbatim>\<open>panic(nil)\<close>,
  and \<^verbatim>\<open>recover()\<close> returns nil for it.
\<close>

type_synonym byte = "8 word"

datatype error =
    BadStream            \<comment> \<open>an error value for a wire violation: \<^verbatim>\<open>badStreamPanic\<close> with an error, \<^verbatim>\<open>badStreamPanicf\<close>, a failed read of the buffer, \<^verbatim>\<open>panic(fmt.Errorf("invalid ordinal, ..."))\<close>\<close>
  | NilPanic             \<comment> \<open>\<^verbatim>\<open>badStreamPanic(err)\<close> with \<^verbatim>\<open>err == nil\<close>: a panic whose recovered value is nil\<close>
  | RuntimePanic         \<comment> \<open>Go runtime error: index or slice bounds out of range, failed type assertion, nil dereference\<close>
  | InvalidCertificate   \<comment> \<open>\<^verbatim>\<open>panic(fmt.Errorf("invalid certificate being used to decrypt ..."))\<close>\<close>
  | PanicString string   \<comment> \<open>\<^verbatim>\<open>panic("...")\<close> with a string value\<close>
  | ExternalError        \<comment> \<open>\<^verbatim>\<open>panic(err)\<close> with the error of a library call (keystore, RSA, AEAD)\<close>
  | BeginReadError       \<comment> \<open>the error returned by \<^verbatim>\<open>BeginRead\<close>\<close>
  | ServerInternalError  \<comment> \<open>\<^verbatim>\<open>errors.New("SQL Server had internal error")\<close>\<close>
  | ScanError            \<comment> \<open>the error returned by \<^verbatim>\<open>scanIntoOut\<close>\<close>

text \<open>Sequencing of fallible steps: the first panic ends the computation.\<close>

definition bind_res :: "error + 'a \<Rightarrow> ('a \<Rightarrow> error + 'b) \<Rightarrow> error + 'b" where
  "bind_res m f = (case m of Inl e \<Rightarrow> Inl e | Inr x \<Rightarrow> f x)"

text \<open>
  Modelled from the spec: \<^verbatim>\<open>tdsBuffer\<close> (the PacketReader) is declared outside
  \<^verbatim>\<open>token.go\<close>. The spec gives it sequential little-endian readers that fail with
  BadStream when a read overruns the available bytes. Packet reassembly is abstracted:
  the buffer is the list of bytes of the message that are not consumed yet.
\<close>

type_synonym tdsBuffer = "byte list"

definition le_nat :: "byte list \<Rightarrow> nat" where
  "le_nat bs = foldr (\<lambda>b acc. unat b + 256 * acc) bs 0"

definition buf_ReadFull :: "nat \<Rightarrow> tdsBuffer \<Rightarrow> error + (byte list \<times> tdsBuffer)" where
  "buf_ReadFull n r = (if length r < n then Inl BadStream else Inr (take n r, drop n r))"

definition buf_byte :: "tdsBuffer \<Rightarrow> error + (byte \<times> tdsBuffer)" where
  "buf_byte r = (case r of [] \<Rightarrow> Inl BadStream | b # r' \<Rightarrow> Inr (b, r'))"

definition buf_uint16 :: "tdsBuffer \<Rightarrow> error + (16 word \<times> tdsBuffer)" where
  "buf_uint16 r = bind_res (buf_ReadFull 2 r) (\<lambda>(bs, r'). Inr (of_nat (le_nat bs), r'))"

definition buf_uint32 :: "tdsBuffer \<Rightarrow> error + (32 word \<times> tdsBuffer)" where
  "buf_uint32 r = bind_res (buf_ReadFull 4 r) (\<lambda>(bs, r'). Inr (of_nat (le_nat bs), r'))"

definition buf_uint64 :: "tdsBuffer \<Rightarrow> error + (64 word \<times> tdsBuffer)" where
  "buf_uint64 r = bind_res (buf_ReadFull 8 r) (\<lambda>(bs, r'). Inr (of_nat (le_nat bs), r'))"

definition buf_int32 :: "tdsBuffer \<Rightarrow> error + (32 word \<times> tdsBuffer)" where
  "buf_int32 r = buf_uint32 r"

text \<open>
  \<^verbatim>\<open>io.CopyN(ioutil.Discard, r, n)\<close> goes through \<^verbatim>\<open>tdsBuffer.Read\<close>, which returns
  its error instead of panicking; the source drops that result, so skipping past the end
  of the message consumes what is left and continues.
\<close>

definition buf_discard :: "nat \<Rightarrow> tdsBuffer \<Rightarrow> tdsBuffer" where
  "buf_discard n r = drop n r"

text \<open>
  Modelled from the spec: \<^verbatim>\<open>ucs22str\<close> is declared outside \<^verbatim>\<open>token.go\<close>. Strings on the
  wire are UCS-2 LE, two bytes per character; a decoded string is kept as its list of
  16-bit code units (the re-encoding to UTF-8 is not modelled). An odd number of bytes is
  an error.
\<close>

type_synonym ucs2 = "16 word list"

fun ucs2_units :: "byte list \<Rightarrow> ucs2" where
  "ucs2_units (lo # hi # bs) = of_nat (unat lo + 256 * unat hi) # ucs2_units bs"
| "ucs2_units _ = []"

definition ucs22str :: "byte list \<Rightarrow> error + ucs2" where
  "ucs22str bs = (if odd (length bs) then Inl BadStream else Inr (ucs2_units bs))"


section \<open>FEATUREEXTACK\<close>

text \<open>
  Modelled from the spec: the feature ids \<^verbatim>\<open>featExtFEDAUTH\<close>,
  \<^verbatim>\<open>featExtCOLUMNENCRYPTION\<close> and \<^verbatim>\<open>featExtTERMINATOR\<close> are constants declared outside
  \<^verbatim>\<open>token.go\<close>; they carry the values of the TDS feature-extension table.
\<close>

definition featExtFEDAUTH :: byte where "featExtFEDAUTH = 0x02"
definition featExtCOLUMNENCRYPTION :: byte where "featExtCOLUMNENCRYPTION = 0x04"
definition featExtTERMINATOR :: byte where "featExtTERMINATOR = 0xFF"

datatype featureAck =
    FedAuthAck "byte list" "byte list"   \<comment> \<open>\<^verbatim>\<open>fedAuthAckStruct{Nonce, Signature}\<close>, a nil slice is \<open>[]\<close>\<close>
  | ColAck nat                           \<comment> \<open>\<^verbatim>\<open>colAckStruct{Version}\<close>\<close>

type_synonym featureExtAck = "byte \<rightharpoonup> featureAck"

text \<open>
  The body of the loop of \<^verbatim>\<open>parseFeatureExtAck\<close> after the feature id and its
  \<^verbatim>\<open>uint32\<close> length are read: the \<^verbatim>\<open>switch\<close> and the final skip of the bytes that
  \<^verbatim>\<open>length\<close> still counts. \<^verbatim>\<open>length\<close> is a \<^verbatim>\<open>uint32\<close>: \<^verbatim>\<open>length--\<close> wraps at 0.
\<close>

definition skipUnprocessed :: "32 word \<Rightarrow> tdsBuffer \<Rightarrow> tdsBuffer" where
  "skipUnprocessed len r = (if len > 0 then buf_discard (unat len) r else r)"

definition parseFeature ::
  "featureExtAck \<Rightarrow> byte \<Rightarrow> 32 word \<Rightarrow> tdsBuffer \<Rightarrow> error + (featureExtAck \<times> tdsBuffer)" where
  "parseFeature ack feature len r =
    (if feature = featExtFEDAUTH then
       bind_res (if len \<ge> 32
                 then bind_res (buf_ReadFull 32 r) (\<lambda>(nonce, r1). Inr (nonce, len - 32, r1))
                 else Inr ([], len, r))
         (\<lambda>(nonce, len1, r1).
       bind_res (if len1 \<ge> 32
                 then bind_res (buf_ReadFull 32 r1) (\<lambda>(sig, r2). Inr (sig, len1 - 32, r2))
                 else Inr ([], len1, r1))
         (\<lambda>(sig, len2, r2).
       Inr (ack(feature \<mapsto> FedAuthAck nonce sig), skipUnprocessed len2 r2)))
     else if feature = featExtCOLUMNENCRYPTION then
       bind_res (buf_byte r) (\<lambda>(version, r1).
       let len1 = len - 1 in
       bind_res (if len1 > 0
                 then bind_res (buf_byte r1) (\<lambda>(enclaveLength, r2).
                      bind_res (buf_ReadFull (unat enclaveLength) r2) (\<lambda>(enclaveType, r3).
                      Inr (len1 - ucast enclaveLength, r3)))
                 else Inr (len1, r1))
         (\<lambda>(len2, r3).
       Inr (ack(feature \<mapsto> ColAck (unat version)), skipUnprocessed len2 r3)))
     else Inr (ack, skipUnprocessed len r))"

lemma bind_res_simps [simp]:
  "bind_res (Inl e) f = Inl e"
  "bind_res (Inr x) f = f x"
  by (simp_all add: bind_res_def)

lemma bind_res_eq_Inr:
  "bind_res m f = Inr y \<longleftrightarrow> (\<exists>x. m = Inr x \<and> f x = Inr y)"
  by (cases m) simp_all

lemma bind_res_eq_Inl:
  "bind_res m f = Inl e \<longleftrightarrow> (m = Inl e \<or> (\<exists>x. m = Inr x \<and> f x = Inl e))"
  by (cases m) simp_all

lemma bind_res_cong [fundef_cong]:
  "m = m' \<Longrightarrow> (\<And>x. m' = Inr x \<Longrightarrow> f x = f' x) \<Longrightarrow> bind_res m f = bind_res m' f'"
  by (cases m') simp_all

lemma buf_ReadFull_length:
  "buf_ReadFull n r = Inr (bs, r') \<Longrightarrow> length bs = n \<and> length r' + n = length r \<and> r = bs @ r'"
  by (auto simp: buf_ReadFull_def split: if_splits)

lemma buf_byte_length: "buf_byte r = Inr (b, r') \<Longrightarrow> r = b # r'"
  by (auto simp: buf_byte_def split: list.splits)

lemma buf_uint32_length: "buf_uint32 r = Inr (w, r') \<Longrightarrow> length r' + 4 = length r"
  by (auto simp: buf_uint32_def bind_res_eq_Inr dest: buf_ReadFull_length)

lemma buf_uint16_length: "buf_uint16 r = Inr (w, r') \<Longrightarrow> length r' + 2 = length r"
  by (auto simp: buf_uint16_def bind_res_eq_Inr dest: buf_ReadFull_length)

lemma buf_uint64_length: "buf_uint64 r = Inr (w, r') \<Longrightarrow> length r' + 8 = length r"
  by (auto simp: buf_uint64_def bind_res_eq_Inr dest: buf_ReadFull_length)

lemma skipUnprocessed_length: "length (skipUnprocessed len r) \<le> length r"
  by (simp add: skipUnprocessed_def buf_discard_def)

lemma parseFeature_length:
  "parseFeature ack feature len r = Inr (ack', r') \<Longrightarrow> length r' \<le> length r"
  unfolding parseFeature_def
  by (auto simp: bind_res_eq_Inr Let_def split: if_splits
      dest!: buf_ReadFull_length buf_byte_length
      intro: order_trans [OF skipUnprocessed_length])

function parseFeatureExtAck_loop ::
  "featureExtAck \<Rightarrow> tdsBuffer \<Rightarrow> error + (featureExtAck \<times> tdsBuffer)" where
  "parseFeatureExtAck_loop ack r =
     bind_res (buf_byte r) (\<lambda>(feature, r1).
       if feature = featExtTERMINATOR then Inr (ack, r1)
       else bind_res (buf_uint32 r1) (\<lambda>(len, r2).
            bind_res (parseFeature ack feature len r2) (\<lambda>(ack', r3).
            parseFeatureExtAck_loop ack' r3)))"
  by pat_completeness auto
termination
proof (relation "measure (\<lambda>(ack, r). length r)")
  show "wf (measure (\<lambda>(ack, r). length r))" by simp
next
  fix ack :: featureExtAck and r x feature r1 y len r2 z ack' r3
  assume "buf_byte r = Inr x" "(feature, r1) = x" "feature \<noteq> featExtTERMINATOR"
    "buf_uint32 r1 = Inr y" "(len, r2) = y" "parseFeature ack feature len r2 = Inr z"
    "(ack', r3) = z"
  then have "r = feature # r1" "length r2 + 4 = length r1" "length r3 \<le> length r2"
    using buf_byte_length [of r feature r1] buf_uint32_length [of r1 len r2]
      parseFeature_length [of ack feature len r2 ack' r3] by auto
  then show "((ack', r3), (ack, r)) \<in> measure (\<lambda>(ack, r). length r)" by simp
qed

definition parseFeatureExtAck :: "tdsBuffer \<Rightarrow> error + (featureExtAck \<times> tdsBuffer)" where
  "parseFeatureExtAck r = parseFeatureExtAck_loop Map.empty r"


text \<open>
  C6 (code defect). The claim: for every FEATUREEXTACK feature record the decoder consumes
  exactly the bytes that the record's \<^verbatim>\<open>uint32\<close> length declares, and stops at the next
  feature id or the terminator. The stream below is one COLUMNENCRYPTION record (id 4)
  of declared length 2: version byte 1 and enclave-type length 0, then the terminator
  \<^verbatim>\<open>0xFF\<close>. The source decrements \<^verbatim>\<open>length\<close> for the version byte and for the enclave
  bytes, not for the enclave-type length byte itself, so one byte is still counted and
  the final skip swallows the terminator; the next read of a feature id finds no byte.
\<close>

theorem parseFeatureExtAck_overreads_terminator:
  "parseFeatureExtAck [0x04, 0x02, 0x00, 0x00, 0x00, 0x01, 0x00, 0xFF] = Inl BadStream"
  by (simp add: parseFeatureExtAck_def parseFeature_def buf_byte_def buf_uint32_def
      buf_ReadFull_def le_nat_def featExtTERMINATOR_def featExtCOLUMNENCRYPTION_def
      featExtFEDAUTH_def skipUnprocessed_def buf_discard_def)


section \<open>FEDAUTHINFO\<close>

definition fedAuthInfoSTSURL :: byte where "fedAuthInfoSTSURL = 0x01"
definition fedAuthInfoSPN :: byte where "fedAuthInfoSPN = 0x02"

record fedAuthInfoStruct =
  STSURL :: ucs2
  ServerSPN :: ucs2

record fedAuthInfoOpt =
  fedAuthInfoID :: byte
  dataLength :: "32 word"
  dataOffset :: "32 word"

text \<open>
  A Go slice expression \<^verbatim>\<open>data[lo:hi]\<close> with \<^verbatim>\<open>uint32\<close> bounds: the runtime panics unless
  \<^verbatim>\<open>lo <= hi <= cap(data)\<close>.
\<close>

definition go_slice :: "byte list \<Rightarrow> 32 word \<Rightarrow> 32 word \<Rightarrow> error + byte list" where
  "go_slice data lo hi =
     (if unat lo \<le> unat hi \<and> unat hi \<le> length data
      then Inr (take (unat hi - unat lo) (drop (unat lo) data))
      else Inl RuntimePanic)"

text \<open>
  The first loop of \<^verbatim>\<open>parseFedAuthInfo\<close>: \<^verbatim>\<open>count\<close> options of one id byte, a four-byte
  length and a four-byte offset; \<^verbatim>\<open>offset\<close> (a \<^verbatim>\<open>uint32\<close>) grows by 9 for each.
\<close>

fun readFedAuthInfoOpts ::
  "nat \<Rightarrow> 32 word \<Rightarrow> tdsBuffer \<Rightarrow> error + (fedAuthInfoOpt list \<times> 32 word \<times> tdsBuffer)" where
  "readFedAuthInfoOpts 0 offset r = Inr ([], offset, r)"
| "readFedAuthInfoOpts (Suc n) offset r =
     bind_res (buf_byte r) (\<lambda>(optID, r1).
     bind_res (buf_uint32 r1) (\<lambda>(len, r2).
     bind_res (buf_uint32 r2) (\<lambda>(off, r3).
     bind_res (readFedAuthInfoOpts n (offset + 1 + 4 + 4) r3) (\<lambda>(opts, offset', r4).
     Inr (\<lparr>fedAuthInfoID = optID, dataLength = len, dataOffset = off\<rparr> # opts, offset', r4)))))"

text \<open>
  The second loop: the two bounds checks (in \<^verbatim>\<open>uint32\<close> arithmetic, as written), the slice
  of \<^verbatim>\<open>data\<close>, and the decoding by option id.
\<close>

fun decodeFedAuthInfoOpts ::
  "32 word \<Rightarrow> 32 word \<Rightarrow> byte list \<Rightarrow> fedAuthInfoOpt list \<Rightarrow> fedAuthInfoStruct
   \<Rightarrow> error + fedAuthInfoStruct" where
  "decodeFedAuthInfoOpts sz offset data [] res = Inr res"
| "decodeFedAuthInfoOpts sz offset data (opt # opts) res =
     (if dataOffset opt < offset then Inl BadStream
      else if dataOffset opt + dataLength opt > sz then Inl BadStream
      else bind_res (go_slice data (dataOffset opt - offset)
                       (dataOffset opt - offset + dataLength opt)) (\<lambda>optData.
           bind_res
             (if fedAuthInfoID opt = fedAuthInfoSTSURL then
                (case ucs22str optData of Inl e \<Rightarrow> Inl BadStream
                 | Inr s \<Rightarrow> Inr (res\<lparr>STSURL := s\<rparr>))
              else if fedAuthInfoID opt = fedAuthInfoSPN then
                (case ucs22str optData of Inl e \<Rightarrow> Inl BadStream
                 | Inr s \<Rightarrow> Inr (res\<lparr>ServerSPN := s\<rparr>))
              else Inl BadStream)
             (\<lambda>res'. decodeFedAuthInfoOpts sz offset data opts res')))"

definition parseFedAuthInfo :: "tdsBuffer \<Rightarrow> error + (fedAuthInfoStruct \<times> tdsBuffer)" where
  "parseFedAuthInfo r =
     bind_res (buf_uint32 r) (\<lambda>(sz, r1).
     bind_res (buf_uint32 r1) (\<lambda>(count, r2).
     bind_res (readFedAuthInfoOpts (unat count) 4 r2) (\<lambda>(opts, offset, r3).
     bind_res (buf_ReadFull (unat (sz - offset)) r3) (\<lambda>(data, r4).
     bind_res (decodeFedAuthInfoOpts sz offset data opts \<lparr>STSURL = [], ServerSPN = []\<rparr>)
       (\<lambda>res. Inr (res, r4))))))"

text \<open>
  C2 (code defect). The claim: for every \<^verbatim>\<open>uint32\<close> size, count, offset and length on the
  wire, an option whose slice \<^verbatim>\<open>[offset, offset+length)\<close> leaves the declared size ends in
  BadStream, never in an out-of-range read. The token below declares size 13 and one
  option (STS URL) of length 2 at offset \<^verbatim>\<open>0xFFFFFFFF\<close>. The check
  \<^verbatim>\<open>dataOffset+dataLength > size\<close> is computed in \<^verbatim>\<open>uint32\<close>: the sum wraps to 1, both checks
  pass, and the slice expression indexes the empty data block far out of range, which is
  a Go runtime panic and not BadStream.
\<close>

theorem parseFedAuthInfo_offset_wraps:
  "parseFedAuthInfo [0x0D, 0, 0, 0,  0x01, 0, 0, 0,  0x01,  0x02, 0, 0, 0,  0xFF, 0xFF, 0xFF, 0xFF]
     = Inl RuntimePanic"
  by (simp add: parseFedAuthInfo_def buf_uint32_def buf_byte_def buf_ReadFull_def le_nat_def
      go_slice_def)


section \<open>Columns, the CEK table and crypto metadata\<close>

text \<open>
  \<^verbatim>\<open>typeInfo\<close> is declared outside \<^verbatim>\<open>token.go\<close>; the fields are the ones the decoder
  reads or writes. Its \<^verbatim>\<open>Reader\<close> closure is a function of the type info and is kept in
  the record of library functions below.
\<close>

record typeInfo =
  TypeId :: byte
  UserType :: "32 word"
  Flags :: "16 word"
  Size :: int
  Buffer :: "byte list"

record encryptionKeyInfo =
  encryptedKey :: "byte list"
  eki_databaseID :: int
  cekID :: int
  cekVersion :: int
  cekMdVersion :: "byte list"
  keyPath :: ucs2
  keyStoreName :: ucs2
  algorithmName :: ucs2

record cekTableEntry =
  databaseID :: int
  keyId :: int
  keyVersion :: int
  mdVersion :: "byte list"
  valueCount :: int
  cekValues :: "encryptionKeyInfo list"

record cekTable =
  entries :: "cekTableEntry list"

record cryptoMetadata =
  entry :: "cekTableEntry option"     \<comment> \<open>\<^verbatim>\<open>*cekTableEntry\<close>, nil is \<open>None\<close>\<close>
  ordinal :: "16 word"
  algorithmId :: byte
  cm_algorithmName :: "ucs2 option"
  encType :: byte
  normRuleVer :: byte
  cm_typeInfo :: typeInfo

record columnStruct =
  col_UserType :: "32 word"
  col_Flags :: "16 word"
  ColName :: ucs2
  ti :: typeInfo
  cryptoMeta :: "cryptoMetadata option"

text \<open>A decoded cell, Go's \<^verbatim>\<open>interface{}\<close>: nil or a typed value.\<close>

datatype cell = Null | Bytes "byte list" | IntVal int | StrVal ucs2

datatype privateKey = RSAPrivateKey nat | OtherPrivateKey nat

datatype keystoreAuth = PFXKeystoreAuth | OtherKeystoreAuth nat

record alwaysEncryptedSettings =
  pKey :: "privateKey option"
  cert :: "byte list option"
  ksLocation :: string
  ksAuth :: keystoreAuth
  ksSecret :: string

record tdsSession =
  database :: ucs2
  tranid :: "64 word"
  partner :: ucs2
  routedServer :: ucs2
  routedPort :: "16 word"
  packetSize :: int                    \<comment> \<open>what \<^verbatim>\<open>ResizeBuffer\<close> was last called with\<close>
  alwaysEncrypted :: bool
  alwaysEncryptedSettings :: "alwaysEncryptedSettings option"

text \<open>
  The functions that \<^verbatim>\<open>token.go\<close> calls and that are declared elsewhere (the type-info
  reader and the cell readers of \<^verbatim>\<open>types.go\<close>, the keystore and the Always Encrypted
  library) are parameters of the model.
  \<^item> \<open>readTypeInfo\<close>: \<^verbatim>\<open>readTypeInfo(r, typeId, cryptoMeta)\<close>;
  \<^item> \<open>Reader\<close>: \<^verbatim>\<open>ti.Reader(&ti, r, cryptoMeta)\<close>;
  \<^item> \<open>sqlIdentifier\<close>: \<^verbatim>\<open>r.sqlIdentifier()\<close>, its value is dropped;
  \<^item> \<open>osOpen\<close>, \<open>pfxDecode\<close>: \<^verbatim>\<open>os.Open\<close>, then \<^verbatim>\<open>ioutil.ReadAll\<close> and \<^verbatim>\<open>pkcs12.Decode\<close>;
  \<^item> \<open>cekvVerify\<close>: \<^verbatim>\<open>LoadCEKV(blob).Verify(cert)\<close>;
  \<^item> \<open>cekvDecrypt\<close>: \<^verbatim>\<open>LoadCEKV(blob).Decrypt(key)\<close>, \<open>None\<close> is its error;
  \<^item> \<open>aeadDecrypt\<close>: the AEAD algorithm built from the root key, the encryption type and
    the algorithm version byte, applied to the ciphertext, \<open>None\<close> is its error;
  \<^item> \<open>scanIntoOut\<close>: \<open>True\<close> when \<^verbatim>\<open>scanIntoOut\<close> returns an error.
\<close>

record ext =
  readTypeInfo :: "tdsBuffer \<Rightarrow> byte \<Rightarrow> cryptoMetadata option \<Rightarrow> error + (typeInfo \<times> tdsBuffer)"
  Reader :: "typeInfo \<Rightarrow> tdsBuffer \<Rightarrow> cryptoMetadata option \<Rightarrow> error + (cell \<times> tdsBuffer)"
  sqlIdentifier :: "tdsBuffer \<Rightarrow> error + tdsBuffer"
  osOpen :: "string \<Rightarrow> byte list option"
  pfxDecode :: "byte list \<Rightarrow> string \<Rightarrow> (privateKey \<times> byte list) option"
  cekvVerify :: "byte list \<Rightarrow> byte list option \<Rightarrow> bool"
  cekvDecrypt :: "byte list \<Rightarrow> privateKey \<Rightarrow> byte list option"
  aeadDecrypt :: "byte list \<Rightarrow> byte \<Rightarrow> byte \<Rightarrow> byte list \<Rightarrow> byte list option"
  scanIntoOut :: "ucs2 \<Rightarrow> cell \<Rightarrow> bool"

text \<open>
  Modelled from the spec: \<^verbatim>\<open>columnStruct.isEncrypted\<close> is declared outside \<^verbatim>\<open>token.go\<close>;
  a column is encrypted when its flags carry the COLMETADATA bit \<^verbatim>\<open>fEncrypted\<close> (0x0800).
\<close>

definition colFlagEncrypted :: "16 word" where "colFlagEncrypted = 0x0800"

definition isEncrypted :: "columnStruct \<Rightarrow> bool" where
  "isEncrypted column \<longleftrightarrow> col_Flags column AND colFlagEncrypted = colFlagEncrypted"

definition cipherAlgCustom :: byte where "cipherAlgCustom = 0x00"

text \<open>
  The \<^verbatim>\<open>x/text\<close> UTF-16 decoder of \<^verbatim>\<open>dec.Bytes\<close>, whose error the source drops: the
  result is kept as code units.
\<close>

definition utf16Bytes :: "byte list \<Rightarrow> ucs2" where
  "utf16Bytes bs = ucs2_units bs"

definition getBaseTypeInfo :: "tdsBuffer \<Rightarrow> bool \<Rightarrow> error + (typeInfo \<times> tdsBuffer)" where
  "getBaseTypeInfo r parseFlags =
     bind_res (buf_uint32 r) (\<lambda>(userType, r1).
     bind_res (if parseFlags then buf_uint16 r1 else Inr (0, r1)) (\<lambda>(flags, r2).
     bind_res (buf_byte r2) (\<lambda>(tId, r3).
     Inr (\<lparr>TypeId = tId, UserType = userType, Flags = flags, Size = 0, Buffer = []\<rparr>, r3))))"

text \<open>
  \<^verbatim>\<open>parseCryptoMetadata\<close>. The ordinal is checked after the other fields are read; an
  ordinal outside the table is \<^verbatim>\<open>panic(fmt.Errorf("invalid ordinal, ..."))\<close>, an error value
  like the ones \<^verbatim>\<open>badStreamPanic\<close> raises.
\<close>

definition parseCryptoMetadata ::
  "ext \<Rightarrow> tdsBuffer \<Rightarrow> cekTable option \<Rightarrow> error + (cryptoMetadata \<times> tdsBuffer)" where
  "parseCryptoMetadata x r cekTable =
     bind_res (case cekTable of None \<Rightarrow> Inr (0, r) | Some t \<Rightarrow> buf_uint16 r) (\<lambda>(ordinal, r1).
     bind_res (getBaseTypeInfo r1 False) (\<lambda>(typeInfo, r2).
     bind_res (readTypeInfo x r2 (TypeId typeInfo) None) (\<lambda>(ti0, r3).
     let ti = ti0\<lparr>UserType := UserType typeInfo, Flags := Flags typeInfo,
                    TypeId := TypeId typeInfo\<rparr> in
     bind_res (buf_byte r3) (\<lambda>(algorithmId, r4).
     bind_res (if algorithmId = cipherAlgCustom
               then bind_res (buf_byte r4) (\<lambda>(nameLen, r5).
                    bind_res (buf_ReadFull (unat nameLen * 2) r5) (\<lambda>(algNameUtf16, r6).
                    Inr (Some (utf16Bytes algNameUtf16), r6)))
               else Inr (None, r4)) (\<lambda>(algName, r6).
     bind_res (buf_byte r6) (\<lambda>(encType, r7).
     bind_res (buf_byte r7) (\<lambda>(normRuleVer, r8).
     bind_res (case cekTable of None \<Rightarrow> Inr None
               | Some t \<Rightarrow>
                   if int (unat ordinal) > int (length (entries t)) - 1
                   then Inl BadStream
                   else Inr (Some (entries t ! unat ordinal))) (\<lambda>entry.
     Inr (\<lparr>entry = entry, ordinal = ordinal, algorithmId = algorithmId,
           cm_algorithmName = algName, encType = encType, normRuleVer = normRuleVer,
           cm_typeInfo = ti\<rparr>, r8)))))))))"


section \<open>The CEK table and COLMETADATA\<close>

text \<open>
  \<^verbatim>\<open>tdsBuffer.Read\<close> returns an error instead of panicking, and only when no byte is
  left; a short read leaves the rest of the destination at zero.
\<close>

definition buf_Read :: "nat \<Rightarrow> tdsBuffer \<Rightarrow> (byte list \<times> tdsBuffer) option" where
  "buf_Read n r =
     (if r = [] then None else Some (take n r @ replicate (n - length r) 0, drop n r))"

text \<open>
  The loop over the CEK values of one entry. The lengths of the three names are doubled
  in the width of their wire type (\<^verbatim>\<open>keyStoreLength*2\<close> is a \<^verbatim>\<open>uint8\<close> product).
\<close>

fun readCekValues ::
  "nat \<Rightarrow> int \<Rightarrow> int \<Rightarrow> int \<Rightarrow> byte list \<Rightarrow> tdsBuffer
   \<Rightarrow> error + (encryptionKeyInfo list \<times> tdsBuffer)" where
  "readCekValues 0 databaseId cekId cekVer cekMdVer r = Inr ([], r)"
| "readCekValues (Suc n) databaseId cekId cekVer cekMdVer r =
     bind_res (buf_uint16 r) (\<lambda>(encryptedCekLength, r1).
     bind_res (buf_ReadFull (unat encryptedCekLength) r1) (\<lambda>(encryptedCek, r2).
     bind_res (buf_byte r2) (\<lambda>(keyStoreLength, r3).
     bind_res (buf_ReadFull (unat (keyStoreLength * 2)) r3) (\<lambda>(keyStoreNameUtf16, r4).
     bind_res (buf_uint16 r4) (\<lambda>(keyPathLength, r5).
     bind_res (buf_ReadFull (unat (keyPathLength * 2)) r5) (\<lambda>(keyPathUtf16, r6).
     bind_res (buf_byte r6) (\<lambda>(algLength, r7).
     bind_res (buf_ReadFull (unat (algLength * 2)) r7) (\<lambda>(algNameUtf16, r8).
     bind_res (readCekValues n databaseId cekId cekVer cekMdVer r8) (\<lambda>(vals, r9).
     Inr (\<lparr>encryptedKey = encryptedCek, eki_databaseID = databaseId, cekID = cekId,
           cekVersion = cekVer, cekMdVersion = cekMdVer,
           keyPath = utf16Bytes keyPathUtf16, keyStoreName = utf16Bytes keyStoreNameUtf16,
           algorithmName = utf16Bytes algNameUtf16\<rparr> # vals, r9))))))))))"

definition readCekTableEntry :: "tdsBuffer \<Rightarrow> error + (cekTableEntry \<times> tdsBuffer)" where
  "readCekTableEntry r =
     bind_res (buf_int32 r) (\<lambda>(databaseId, r1).
     bind_res (buf_int32 r1) (\<lambda>(cekID, r2).
     bind_res (buf_int32 r2) (\<lambda>(cekVersion, r3).
     (case buf_Read 8 r3 of
        None \<Rightarrow> Inl (PanicString ''unable to read cekMdVersion'')
      | Some (mdVer, r4) \<Rightarrow>
     bind_res (buf_byte r4) (\<lambda>(cekValueCount, r5).
     bind_res (readCekValues (unat cekValueCount) (sint databaseId) (sint cekID)
                 (sint cekVersion) mdVer r5) (\<lambda>(vals, r6).
     Inr (\<lparr>databaseID = sint databaseId, keyId = sint cekID, keyVersion = sint cekVersion,
           mdVersion = mdVer, valueCount = int (unat cekValueCount),
           cekValues = vals\<rparr>, r6)))))))"

fun readCekTableEntries :: "nat \<Rightarrow> tdsBuffer \<Rightarrow> error + (cekTableEntry list \<times> tdsBuffer)" where
  "readCekTableEntries 0 r = Inr ([], r)"
| "readCekTableEntries (Suc n) r =
     bind_res (readCekTableEntry r) (\<lambda>(e, r1).
     bind_res (readCekTableEntries n r1) (\<lambda>(es, r2). Inr (e # es, r2)))"

definition readCEKTable :: "tdsBuffer \<Rightarrow> error + (cekTable option \<times> tdsBuffer)" where
  "readCEKTable r =
     bind_res (buf_uint16 r) (\<lambda>(tableSize, r1).
       if tableSize \<noteq> 0
       then bind_res (readCekTableEntries (unat tableSize) r1) (\<lambda>(es, r2).
            Inr (Some \<lparr>entries = es\<rparr>, r2))
       else Inr (None, r1))"

text \<open>The lazy load of the keystore in \<^verbatim>\<open>parseColMetadata72\<close>.\<close>

definition loadKeystore :: "ext \<Rightarrow> tdsSession \<Rightarrow> error + tdsSession" where
  "loadKeystore x s =
     (case alwaysEncryptedSettings s of
        None \<Rightarrow> Inl (PanicString ''alwaysEncryptedSettings are nil!'')
      | Some aes \<Rightarrow>
          (case pKey aes of
             Some k \<Rightarrow> Inr s
           | None \<Rightarrow>
               (case osOpen x (ksLocation aes) of
                  None \<Rightarrow> Inl ExternalError
                | Some f \<Rightarrow>
                    (case ksAuth aes of
                       PFXKeystoreAuth \<Rightarrow>
                         (case pfxDecode x f (ksSecret aes) of
                            None \<Rightarrow> Inl ExternalError
                          | Some (pk, c) \<Rightarrow>
                              Inr (s\<lparr>alwaysEncryptedSettings :=
                                       Some (aes\<lparr>pKey := Some pk, cert := Some c\<rparr>)\<rparr>))
                     | OtherKeystoreAuth n \<Rightarrow> Inl (PanicString ''ksAuth is unimplemented'')))))"

text \<open>
  Modelled from the spec: the type ids \<^verbatim>\<open>typeText\<close>, \<^verbatim>\<open>typeNText\<close> and \<^verbatim>\<open>typeImage\<close> are
  constants declared outside \<^verbatim>\<open>token.go\<close>, with the values of the TDS type table.
\<close>

definition typeImage :: byte where "typeImage = 0x22"
definition typeText :: byte where "typeText = 0x23"
definition typeNText :: byte where "typeNText = 0x63"

fun parseColumns ::
  "ext \<Rightarrow> tdsSession \<Rightarrow> cekTable option \<Rightarrow> nat \<Rightarrow> tdsBuffer
   \<Rightarrow> error + (columnStruct list \<times> tdsBuffer)" where
  "parseColumns x s cekTable 0 r = Inr ([], r)"
| "parseColumns x s cekTable (Suc n) r =
     bind_res (getBaseTypeInfo r True) (\<lambda>(baseTi, r1).
     bind_res (readTypeInfo x r1 (TypeId baseTi) None) (\<lambda>(typeInfo0, r2).
     let typeInfo = typeInfo0\<lparr>UserType := UserType baseTi, Flags := Flags baseTi,
                              TypeId := TypeId baseTi\<rparr> in
     bind_res (if TypeId baseTi = typeText \<or> TypeId baseTi = typeNText
                  \<or> TypeId baseTi = typeImage
               then sqlIdentifier x r2 else Inr r2) (\<lambda>r3.
     let column = \<lparr>col_UserType = UserType baseTi, col_Flags = Flags baseTi, ColName = [],
                    ti = typeInfo, cryptoMeta = None\<rparr> in
     bind_res (if isEncrypted column \<and> alwaysEncrypted s
               then bind_res (parseCryptoMetadata x r3 cekTable) (\<lambda>(cm, r4).
                    Inr (Some (cm\<lparr>cm_typeInfo := (cm_typeInfo cm)\<lparr>Flags := Flags baseTi\<rparr>\<rparr>), r4))
               else Inr (None, r3)) (\<lambda>(cmo, r4).
     bind_res (buf_byte r4) (\<lambda>(colNameLen, r5).
     bind_res (buf_ReadFull (unat colNameLen * 2) r5) (\<lambda>(colNameUtf16, r6).
     bind_res (parseColumns x s cekTable n r6) (\<lambda>(cols, r7).
     Inr (column\<lparr>cryptoMeta := cmo, ColName := utf16Bytes colNameUtf16\<rparr> # cols, r7))))))))"

definition parseColMetadata72 ::
  "ext \<Rightarrow> tdsBuffer \<Rightarrow> tdsSession \<Rightarrow> error + (columnStruct list \<times> tdsSession \<times> tdsBuffer)" where
  "parseColMetadata72 x r s =
     bind_res (buf_uint16 r) (\<lambda>(count, r1).
       if count = 0xffff then Inr ([], s, r1)
       else
         bind_res (if alwaysEncrypted s
                   then bind_res (readCEKTable r1) (\<lambda>(cekTable, r2).
                        bind_res (loadKeystore x s) (\<lambda>s'. Inr (cekTable, s', r2)))
                   else Inr (None, s, r1)) (\<lambda>(cekTable, s', r2).
         bind_res (parseColumns x s' cekTable (unat count) r2) (\<lambda>(columns, r3).
         Inr (columns, s', r3))))"


section \<open>ROW and NBCROW\<close>

text \<open>
  \<^verbatim>\<open>decryptColumn\<close>. The statements of the source in order: the CEK value at index
  \<^verbatim>\<open>ordinal\<close> (whose version becomes the algorithm version), the check that a private key
  is loaded, the CEK value at index 0 (whose encrypted key is loaded and verified against
  the certificate), the RSA decryption of the root key, and the AEAD decryption of the
  cell, whose argument is the type assertion \<^verbatim>\<open>columnContent.([]byte)\<close>. The plaintext is
  written to \<^verbatim>\<open>column.cryptoMeta.typeInfo.Buffer\<close> and returned as a fresh buffer; the
  result carries the crypto metadata with that write and the buffer.
\<close>

definition decryptColumn ::
  "ext \<Rightarrow> columnStruct \<Rightarrow> tdsSession \<Rightarrow> cell \<Rightarrow> error + (cryptoMetadata \<times> tdsBuffer)" where
  "decryptColumn x column s columnContent =
     (case cryptoMeta column of None \<Rightarrow> Inl RuntimePanic | Some cm \<Rightarrow>
      (case entry cm of None \<Rightarrow> Inl RuntimePanic | Some ent \<Rightarrow>
       if unat (ordinal cm) \<ge> length (cekValues ent) then Inl RuntimePanic
       else
         let cekValue = cekValues ent ! unat (ordinal cm);
             algVer = cekVersion cekValue
         in
         (case alwaysEncryptedSettings s of None \<Rightarrow> Inl RuntimePanic | Some aes \<Rightarrow>
          (case pKey aes of
             None \<Rightarrow> Inl (PanicString ''alwaysEncrypted pKey not set: this should never happen'')
           | Some pk \<Rightarrow>
               if 0 \<ge> length (cekValues ent) then Inl RuntimePanic
               else
                 let blob = encryptedKey (cekValues ent ! 0) in
                 if \<not> cekvVerify x blob (cert aes) then Inl InvalidCertificate
                 else
                   (case pk of
                      OtherPrivateKey k \<Rightarrow> Inl RuntimePanic
                    | RSAPrivateKey k \<Rightarrow>
                        (case cekvDecrypt x blob pk of
                           None \<Rightarrow> Inl ExternalError
                         | Some rootKey \<Rightarrow>
                             (case columnContent of
                                Bytes ct \<Rightarrow>
                                  (case aeadDecrypt x rootKey (encType cm) (of_int algVer) ct of
                                     None \<Rightarrow> Inl ExternalError
                                   | Some d \<Rightarrow>
                                       Inr (cm\<lparr>cm_typeInfo := (cm_typeInfo cm)\<lparr>Buffer := d\<rparr>\<rparr>, d))
                              | _ \<Rightarrow> Inl RuntimePanic)))))))"

text \<open>
  \<^verbatim>\<open>parseRow\<close>: the loop over the columns from index \<open>i\<close> on; \<^verbatim>\<open>row[i] = v\<close> is the list
  update (the caller allocates \<^verbatim>\<open>row\<close> with one slot for each column).
\<close>

fun parseRow_loop ::
  "ext \<Rightarrow> tdsSession \<Rightarrow> nat \<Rightarrow> columnStruct list \<Rightarrow> cell list \<Rightarrow> tdsBuffer
   \<Rightarrow> error + (cell list \<times> tdsBuffer)" where
  "parseRow_loop x s i [] row r = Inr (row, r)"
| "parseRow_loop x s i (column # columns) row r =
     bind_res (Reader x (ti column) r None) (\<lambda>(columnContent, r1).
       if columnContent = Null
       then parseRow_loop x s (Suc i) columns (row[i := columnContent]) r1
       else if isEncrypted column \<and> alwaysEncrypted s
       then bind_res (decryptColumn x column s columnContent) (\<lambda>(cm, buffer).
            bind_res (Reader x (cm_typeInfo cm) buffer (Some cm)) (\<lambda>(v, rest).
            parseRow_loop x s (Suc i) columns (row[i := v]) r1))
       else parseRow_loop x s (Suc i) columns (row[i := columnContent]) r1)"

definition parseRow ::
  "ext \<Rightarrow> tdsBuffer \<Rightarrow> tdsSession \<Rightarrow> columnStruct list \<Rightarrow> cell list
   \<Rightarrow> error + (cell list \<times> tdsBuffer)" where
  "parseRow x r s columns row = parseRow_loop x s 0 columns row r"

text \<open>
  \<^verbatim>\<open>parseNbcRow\<close>: the bitmap \<^verbatim>\<open>pres\<close> of \<^verbatim>\<open>(len(columns)+7)/8\<close> bytes, then the loop; the
  test of bit \<open>i\<close> indexes \<^verbatim>\<open>pres[i/8]\<close>.
\<close>

fun parseNbcRow_loop ::
  "ext \<Rightarrow> tdsSession \<Rightarrow> byte list \<Rightarrow> nat \<Rightarrow> columnStruct list \<Rightarrow> cell list \<Rightarrow> tdsBuffer
   \<Rightarrow> error + (cell list \<times> tdsBuffer)" where
  "parseNbcRow_loop x s pres i [] row r = Inr (row, r)"
| "parseNbcRow_loop x s pres i (col # columns) row r =
     (if i div 8 \<ge> length pres then Inl RuntimePanic
      else if (pres ! (i div 8)) AND (push_bit (i mod 8) 1) \<noteq> 0
      then parseNbcRow_loop x s pres (Suc i) columns (row[i := Null]) r
      else
        bind_res (Reader x (ti col) r None) (\<lambda>(columnContent, r1).
          if isEncrypted col \<and> alwaysEncrypted s
          then bind_res (decryptColumn x col s columnContent) (\<lambda>(cm, buffer).
               bind_res (Reader x (cm_typeInfo cm) buffer (Some cm)) (\<lambda>(v, rest).
               parseNbcRow_loop x s pres (Suc i) columns (row[i := v]) r1))
          else parseNbcRow_loop x s pres (Suc i) columns (row[i := columnContent]) r1))"

definition parseNbcRow ::
  "ext \<Rightarrow> tdsBuffer \<Rightarrow> tdsSession \<Rightarrow> columnStruct list \<Rightarrow> cell list
   \<Rightarrow> error + (cell list \<times> tdsBuffer)" where
  "parseNbcRow x r s columns row =
     (let bitlen = (length columns + 7) div 8 in
      bind_res (buf_ReadFull bitlen r) (\<lambda>(pres, r1).
      parseNbcRow_loop x s pres 0 columns row r1))"


section \<open>An instance of the library for the examples\<close>

text \<open>
  Modelled from the spec: \<^verbatim>\<open>readTypeInfo\<close> and the cell readers are declared outside
  \<^verbatim>\<open>token.go\<close>. The instance covers two TDS types: the fixed-length \<^verbatim>\<open>INT4\<close> (0x38, no
  type parameters, a cell of four little-endian bytes) and \<^verbatim>\<open>BIGVARBINARY\<close> (0xA5, a
  two-byte maximal length; a cell is a two-byte length and the bytes, the length
  \<^verbatim>\<open>0xFFFF\<close> is null). The keystore opens and decodes to an RSA key, the certificate
  check accepts, and both decryptions return their input: the examples are about the
  control flow around the cipher, not about the cipher.
\<close>

definition typeInt4 :: byte where "typeInt4 = 0x38"
definition typeBigVarBin :: byte where "typeBigVarBin = 0xA5"

definition tds_readTypeInfo ::
  "tdsBuffer \<Rightarrow> byte \<Rightarrow> cryptoMetadata option \<Rightarrow> error + (typeInfo \<times> tdsBuffer)" where
  "tds_readTypeInfo r typeId c =
     (if typeId = typeInt4
      then Inr (\<lparr>TypeId = typeId, UserType = 0, Flags = 0, Size = 4, Buffer = []\<rparr>, r)
      else if typeId = typeBigVarBin
      then bind_res (buf_uint16 r) (\<lambda>(n, r1).
           Inr (\<lparr>TypeId = typeId, UserType = 0, Flags = 0, Size = int (unat n), Buffer = []\<rparr>, r1))
      else Inl BadStream)"

definition tds_Reader ::
  "typeInfo \<Rightarrow> tdsBuffer \<Rightarrow> cryptoMetadata option \<Rightarrow> error + (cell \<times> tdsBuffer)" where
  "tds_Reader t r c =
     (if TypeId t = typeInt4
      then bind_res (buf_ReadFull 4 r) (\<lambda>(bs, r1).
           Inr (IntVal (sint (of_nat (le_nat bs) :: 32 word)), r1))
      else if TypeId t = typeBigVarBin
      then bind_res (buf_uint16 r) (\<lambda>(n, r1).
           if n = 0xFFFF then Inr (Null, r1)
           else bind_res (buf_ReadFull (unat n) r1) (\<lambda>(bs, r2). Inr (Bytes bs, r2)))
      else Inl BadStream)"

definition tds_ext :: ext where
  "tds_ext = \<lparr>readTypeInfo = tds_readTypeInfo, Reader = tds_Reader,
      sqlIdentifier = (\<lambda>r. Inr r),
      osOpen = (\<lambda>path. Some []),
      pfxDecode = (\<lambda>f secret. Some (RSAPrivateKey 0, [])),
      cekvVerify = (\<lambda>blob c. True),
      cekvDecrypt = (\<lambda>blob k. Some blob),
      aeadDecrypt = (\<lambda>rootKey et ver ct. Some ct),
      scanIntoOut = (\<lambda>name v. False)\<rparr>"

section \<open>Evaluation of the readers on explicit byte lists\<close>

lemma buf_byte_Cons: "buf_byte (b # r) = Inr (b, r)"
  by (simp add: buf_byte_def)

lemma buf_byte_Nil: "buf_byte [] = Inl BadStream"
  by (simp add: buf_byte_def)

lemma buf_ReadFull_0: "buf_ReadFull 0 r = Inr ([], r)"
  by (simp add: buf_ReadFull_def)

lemma buf_ReadFull_Suc_Cons:
  "buf_ReadFull (Suc n) (b # r) = bind_res (buf_ReadFull n r) (\<lambda>(bs, r'). Inr (b # bs, r'))"
  by (simp add: buf_ReadFull_def)

lemma buf_ReadFull_Suc_Nil: "buf_ReadFull (Suc n) [] = Inl BadStream"
  by (simp add: buf_ReadFull_def)

lemma buf_ReadFull_numeral:
  "buf_ReadFull (numeral k) (b # r) =
     bind_res (buf_ReadFull (pred_numeral k) r) (\<lambda>(bs, r'). Inr (b # bs, r'))"
  "buf_ReadFull (numeral k) [] = Inl BadStream"
  "buf_ReadFull 1 (b # r) = Inr ([b], r)"
  "buf_ReadFull 1 [] = Inl BadStream"
  by (simp_all add: numeral_eq_Suc buf_ReadFull_def)

lemma buf_uint16_Cons:
  "buf_uint16 (a # b # r) = Inr (of_nat (unat a + 256 * unat b), r)"
  by (simp add: buf_uint16_def buf_ReadFull_def le_nat_def)

lemma buf_uint16_short: "buf_uint16 [] = Inl BadStream" "buf_uint16 [a] = Inl BadStream"
  by (simp_all add: buf_uint16_def buf_ReadFull_def)

lemma buf_uint32_Cons:
  "buf_uint32 (a # b # c # d # r) =
     Inr (of_nat (unat a + 256 * (unat b + 256 * (unat c + 256 * unat d))), r)"
  by (simp add: buf_uint32_def buf_ReadFull_def le_nat_def)

lemma buf_uint64_Cons:
  "buf_uint64 (a # b # c # d # e # f # g # h # r) =
     Inr (of_nat (unat a + 256 * (unat b + 256 * (unat c + 256 * (unat d + 256 * (unat e
            + 256 * (unat f + 256 * (unat g + 256 * unat h))))))), r)"
  by (simp add: buf_uint64_def buf_ReadFull_def le_nat_def)

lemmas buf_eval = buf_byte_Cons buf_byte_Nil buf_ReadFull_0 buf_ReadFull_Suc_Cons
  buf_ReadFull_Suc_Nil buf_ReadFull_numeral buf_uint16_Cons buf_uint16_short buf_uint32_Cons
  buf_uint64_Cons buf_int32_def

lemmas tds_ext_eval = tds_ext_def tds_readTypeInfo_def tds_Reader_def typeInt4_def
  typeBigVarBin_def


section \<open>Crypto metadata: the ordinal\<close>

lemma ordinal_check_iff: "(int n - 1 < uint (w :: 16 word)) = (n \<le> unat w)"
proof -
  have "uint w = int (unat w)" by simp
  then show ?thesis by linarith
qed

text \<open>
  C3. With a CEK table present the decoder reads the two-byte ordinal, then the fields
  that it also reads without a table, and only then resolves the entry, behind a bounds
  check: once the fields are read, every ordinal at or beyond the number of entries
  aborts with BadStream, and every smaller ordinal yields crypto metadata that carries
  that ordinal and exactly the table entry at that ordinal. A field that fails to read
  aborts first, with the error of that read, whatever the ordinal.
\<close>

theorem parseCryptoMetadata_ordinal_check:
  "parseCryptoMetadata x (lo # hi # r) (Some t) =
     (case parseCryptoMetadata x r None of
        Inl e \<Rightarrow> Inl e
      | Inr (cm, r') \<Rightarrow>
          let ord = (of_nat (unat lo + 256 * unat hi) :: 16 word) in
          if length (entries t) \<le> unat ord then Inl BadStream
          else Inr (cm\<lparr>entry := Some (entries t ! unat ord), ordinal := ord\<rparr>, r'))"
  unfolding parseCryptoMetadata_def
  by (simp add: buf_uint16_Cons Let_def bind_res_def ordinal_check_iff
      split: sum.split prod.split)

definition cek_entry :: "byte \<Rightarrow> cekTableEntry" where
  "cek_entry k =
     \<lparr>databaseID = 1, keyId = int (unat k), keyVersion = 1,
      mdVersion = [0, 0, 0, 0, 0, 0, 0, 0], valueCount = 1,
      cekValues = [\<lparr>encryptedKey = [k], eki_databaseID = 1, cekID = int (unat k),
                    cekVersion = 1, cekMdVersion = [0, 0, 0, 0, 0, 0, 0, 0],
                    keyPath = [], keyStoreName = [], algorithmName = []\<rparr>]\<rparr>"

text \<open>
  Crypto metadata without a table: plaintext type \<^verbatim>\<open>INT4\<close>, algorithm id 2, encryption
  type 1, normalisation version 1.
\<close>

lemma parseCryptoMetadata_example:
  "parseCryptoMetadata tds_ext [0, 0, 0, 0,  0x38,  0x02,  0x01,  0x01] None
     = Inr (\<lparr>entry = None, ordinal = 0, algorithmId = 2, cm_algorithmName = None,
             encType = 1, normRuleVer = 1,
             cm_typeInfo = \<lparr>TypeId = 0x38, UserType = 0, Flags = 0, Size = 4, Buffer = []\<rparr>\<rparr>,
            [])"
  by (simp add: parseCryptoMetadata_def getBaseTypeInfo_def buf_eval tds_ext_eval
      cipherAlgCustom_def)

text \<open>
  The same metadata against a table of one entry: the ordinal 1 aborts with BadStream,
  the ordinal 0 refers to the entry.
\<close>

theorem parseCryptoMetadata_ordinal_check_witness:
  "parseCryptoMetadata tds_ext [0x01, 0x00,  0, 0, 0, 0,  0x38,  0x02,  0x01,  0x01]
     (Some \<lparr>entries = [cek_entry 1]\<rparr>) = Inl BadStream \<and>
   parseCryptoMetadata tds_ext [0x00, 0x00,  0, 0, 0, 0,  0x38,  0x02,  0x01,  0x01]
     (Some \<lparr>entries = [cek_entry 1]\<rparr>)
     = Inr (\<lparr>entry = Some (cek_entry 1), ordinal = 0, algorithmId = 2, cm_algorithmName = None,
             encType = 1, normRuleVer = 1,
             cm_typeInfo = \<lparr>TypeId = 0x38, UserType = 0, Flags = 0, Size = 4, Buffer = []\<rparr>\<rparr>,
            [])"
  using
    parseCryptoMetadata_ordinal_check [of tds_ext 1 0 "[0, 0, 0, 0,  0x38,  0x02,  0x01,  0x01]"
      "\<lparr>entries = [cek_entry 1]\<rparr>"]
    parseCryptoMetadata_ordinal_check [of tds_ext 0 0 "[0, 0, 0, 0,  0x38,  0x02,  0x01,  0x01]"
      "\<lparr>entries = [cek_entry 1]\<rparr>"]
  by (simp add: parseCryptoMetadata_example)

section \<open>Example streams\<close>

text \<open>
  A session with Always Encrypted enabled and the keystore loaded, a CEK table entry with
  one CEK value whose encrypted key is the byte \<open>k\<close> (\<open>cek_entry\<close> above, its wire form
  below), and an encrypted column: \<^verbatim>\<open>BIGVARBINARY\<close> on the wire, \<^verbatim>\<open>INT4\<close> in plaintext,
  with CEK ordinal \<open>ord\<close> and the table entry \<open>cek_entry k\<close>.
\<close>

definition sess_ae :: tdsSession where
  "sess_ae = \<lparr>database = [], tranid = 0, partner = [], routedServer = [], routedPort = 0,
     packetSize = 0, alwaysEncrypted = True,
     alwaysEncryptedSettings = Some \<lparr>pKey = Some (RSAPrivateKey 0), cert = Some [],
       ksLocation = ''k.pfx'', ksAuth = PFXKeystoreAuth, ksSecret = ''''\<rparr>\<rparr>"

definition sess_nokey :: tdsSession where
  "sess_nokey = sess_ae\<lparr>alwaysEncryptedSettings := None\<rparr>"

definition cek_entry_bytes :: "byte \<Rightarrow> byte list" where
  "cek_entry_bytes k =
     [1,0,0,0,  k,0,0,0,  1,0,0,0,  0,0,0,0,0,0,0,0,  1,  1,0, k,  0,  0,0,  0]"

definition enc_column :: "16 word \<Rightarrow> byte \<Rightarrow> columnStruct" where
  "enc_column ord k =
     \<lparr>col_UserType = 0, col_Flags = 0x0800, ColName = [0x61],
      ti = \<lparr>TypeId = 0xA5, UserType = 0, Flags = 0x0800, Size = 64, Buffer = []\<rparr>,
      cryptoMeta = Some
        \<lparr>entry = Some (cek_entry k), ordinal = ord, algorithmId = 2, cm_algorithmName = None,
         encType = 1, normRuleVer = 1,
         cm_typeInfo = \<lparr>TypeId = 0x38, UserType = 0, Flags = 0x0800, Size = 4, Buffer = []\<rparr>\<rparr>\<rparr>"

text \<open>
  The body of a COLMETADATA token: one column, a CEK table of two entries (keys 1 and 2),
  and the column above with ordinal 1, named \<^verbatim>\<open>a\<close>.
\<close>

definition colmeta_bytes :: "byte list" where
  "colmeta_bytes = [1,0,  2,0] @ cek_entry_bytes 1 @ cek_entry_bytes 2 @
     [0,0,0,0,  0x00,0x08,  0xA5,  0x40,0x00,   1,0,  0,0,0,0,  0x38,  2,  1,  1,   1,  0x61,0]"

lemma readCekTableEntries_numeral:
  "readCekTableEntries (numeral k) r =
     bind_res (readCekTableEntry r) (\<lambda>(e, r1).
     bind_res (readCekTableEntries (pred_numeral k) r1) (\<lambda>(es, r2). Inr (e # es, r2)))"
  by (simp add: numeral_eq_Suc)

lemma count_unfold:
  "readCekValues 1 = readCekValues (Suc 0)"
  "readCekTableEntries 1 = readCekTableEntries (Suc 0)"
  "parseColumns x s ct 1 = parseColumns x s ct (Suc 0)"
  by simp_all

lemma readCekTableEntry_example:
  "readCekTableEntry (cek_entry_bytes 1 @ r) = Inr (cek_entry 1, r)"
  "readCekTableEntry (cek_entry_bytes 2 @ r) = Inr (cek_entry 2, r)"
  by (simp_all add: readCekTableEntry_def cek_entry_bytes_def buf_eval buf_Read_def
      utf16Bytes_def count_unfold cek_entry_def)

lemma readCEKTable_example:
  "readCEKTable ([2,0] @ cek_entry_bytes 1 @ cek_entry_bytes 2 @ r) =
     Inr (Some \<lparr>entries = [cek_entry 1, cek_entry 2]\<rparr>, r)"
  by (simp add: readCEKTable_def buf_eval count_unfold readCekTableEntries_numeral
      readCekTableEntry_example)

lemma loadKeystore_example: "loadKeystore x sess_ae = Inr sess_ae"
  by (simp add: loadKeystore_def sess_ae_def)

lemma parseColumns_example:
  "parseColumns tds_ext sess_ae (Some \<lparr>entries = [cek_entry 1, cek_entry 2]\<rparr>) (Suc 0)
     [0,0,0,0,  0x00,0x08,  0xA5,  0x40,0x00,   1,0,  0,0,0,0,  0x38,  2,  1,  1,   1,  0x61,0]
   = Inr ([enc_column 1 2], [])"
  by (simp add: count_unfold getBaseTypeInfo_def buf_eval tds_ext_eval isEncrypted_def
      colFlagEncrypted_def parseCryptoMetadata_def cipherAlgCustom_def utf16Bytes_def
      typeImage_def typeText_def typeNText_def sess_ae_def enc_column_def)

lemma parseColMetadata72_example:
  "parseColMetadata72 tds_ext colmeta_bytes sess_ae = Inr ([enc_column 1 2], sess_ae, [])"
proof -
  have ae: "alwaysEncrypted sess_ae" by (simp add: sess_ae_def)
  show ?thesis
    unfolding colmeta_bytes_def parseColMetadata72_def
    using readCEKTable_example [of "[0,0,0,0,  0x00,0x08,  0xA5,  0x40,0x00,   1,0,
        0,0,0,0,  0x38,  2,  1,  1,   1,  0x61,0]"]
    by (simp add: buf_uint16_Cons ae loadKeystore_example parseColumns_example
        del: parseColumns.simps)
qed

lemma enc_column_encrypted: "isEncrypted (enc_column ord k)"
  by (simp add: isEncrypted_def enc_column_def colFlagEncrypted_def)

lemma sess_ae_enabled: "alwaysEncrypted sess_ae" "alwaysEncrypted sess_nokey"
  by (simp_all add: sess_ae_def sess_nokey_def)

lemma Reader_example_bytes:
  "Reader tds_ext (ti (enc_column ord k)) [4,0, 0x2A,0,0,0] None = Inr (Bytes [0x2A,0,0,0], [])"
  by (simp add: tds_ext_eval enc_column_def buf_eval)

lemma Reader_example_null:
  "Reader tds_ext (ti (enc_column ord k)) [0xFF, 0xFF] None = Inr (Null, [])"
  by (simp add: tds_ext_eval enc_column_def buf_eval)

text \<open>
  With ordinal 0 the example column decrypts: the stand-in cipher returns the ciphertext,
  which the plaintext reader decodes as the integer 42.
\<close>

lemma decryptColumn_example_ok:
  "decryptColumn tds_ext (enc_column 0 1) sess_ae (Bytes [0x2A, 0, 0, 0])
     = Inr (the (cryptoMeta (enc_column 0 1))\<lparr>cm_typeInfo :=
              \<lparr>TypeId = 0x38, UserType = 0, Flags = 0x0800, Size = 4,
               Buffer = [0x2A, 0, 0, 0]\<rparr>\<rparr>,
            [0x2A, 0, 0, 0])"
  by (simp add: decryptColumn_def enc_column_def cek_entry_def sess_ae_def tds_ext_def)

lemma parseRow_example_ok:
  "parseRow tds_ext [4,0, 0x2A,0,0,0] sess_ae [enc_column 0 1] [Null] = Inr ([IntVal 42], [])"
proof -
  have "Reader tds_ext \<lparr>TypeId = 0x38, UserType = 0, Flags = 0x0800, Size = 4,
      Buffer = [0x2A, 0, 0, 0]\<rparr> [0x2A,0,0,0] c = Inr (IntVal 42, [])" for c
    by (simp add: tds_ext_eval buf_eval le_nat_def)
  then show ?thesis
    by (simp add: parseRow_def decryptColumn_example_ok enc_column_encrypted sess_ae_enabled
        Reader_example_bytes)
qed

text \<open>
  C1 (code defect). The claim: decryption takes everything it needs from the first CEK
  value (index 0) of the column's CEK entry, the algorithm version included. The source
  reads the algorithm version from \<^verbatim>\<open>cekValues[ordinal]\<close>, where \<^verbatim>\<open>ordinal\<close> is the column's
  index into the CEK table, and only the encrypted key from \<^verbatim>\<open>cekValues[0]\<close>. The
  COLMETADATA token \<open>colmeta_bytes\<close> has two CEK entries of one value each and a column
  that refers to the second entry (ordinal 1); the ROW token carries a non-null cell of
  four bytes. Index 1 is out of range in the one-value entry: the row aborts with a
  runtime panic before any key is used, where index 0 would decrypt.
\<close>

theorem decryptColumn_indexes_by_ordinal:
  "bind_res (parseColMetadata72 tds_ext colmeta_bytes sess_ae) (\<lambda>(columns, s, r).
     parseRow tds_ext [4,0, 0x2A,0,0,0] s columns [Null]) = Inl RuntimePanic"
proof -
  have "decryptColumn tds_ext (enc_column 1 2) sess_ae (Bytes [0x2A,0,0,0]) = Inl RuntimePanic"
    by (simp add: decryptColumn_def enc_column_def cek_entry_def)
  then show ?thesis
    by (simp add: parseColMetadata72_example parseRow_def enc_column_encrypted
        sess_ae_enabled Reader_example_bytes)
qed

text \<open>
  C4 (code defect). The claim: in NBCROW a column whose bitmap bit is clear is decoded as
  in ROW. For an encrypted column whose cell reader returns null, \<^verbatim>\<open>parseRow\<close> stores
  null without decrypting; \<^verbatim>\<open>parseNbcRow\<close> has no such test and passes the nil cell to
  \<^verbatim>\<open>decryptColumn\<close>, whose type assertion \<^verbatim>\<open>columnContent.([]byte)\<close> panics. The same
  column and the same null cell (length \<^verbatim>\<open>0xFFFF\<close>), once in a ROW and once in an NBCROW
  with an all-clear bitmap:
\<close>

theorem parseNbcRow_decrypts_null_cell:
  "parseRow tds_ext [0xFF, 0xFF] sess_ae [enc_column 0 1] [Null] = Inr ([Null], []) \<and>
   parseNbcRow tds_ext [0x00, 0xFF, 0xFF] sess_ae [enc_column 0 1] [Null] = Inl RuntimePanic"
proof -
  have "decryptColumn tds_ext (enc_column 0 1) sess_ae Null = Inl RuntimePanic"
    by (simp add: decryptColumn_def enc_column_def cek_entry_def sess_ae_def tds_ext_def)
  then show ?thesis
    by (simp add: parseRow_def parseNbcRow_def buf_eval enc_column_encrypted sess_ae_enabled
        Reader_example_null)
qed

text \<open>
  C10. In \<^verbatim>\<open>parseRow\<close>, a column whose cell reader returns null is stored as null and the
  loop goes on to the next column: the step does not depend on the column being
  encrypted, on Always Encrypted being enabled, or on any key, CEK value or library
  function of the decryption path.
\<close>

theorem parseRow_null_skips_decryption:
  "Reader x (ti column) r None = Inr (Null, r1) \<Longrightarrow>
   parseRow_loop x s i (column # columns) row r
     = parseRow_loop x s (Suc i) columns (row[i := Null]) r1"
  by simp

text \<open>
  The step at an encrypted column of a session with Always Encrypted enabled and no
  keystore settings at all, where \<^verbatim>\<open>decryptColumn\<close> would panic on any cell.
\<close>

theorem parseRow_null_skips_decryption_witness:
  "Reader tds_ext (ti (enc_column 0 1)) [0xFF, 0xFF] None = Inr (Null, []) \<and>
   isEncrypted (enc_column 0 1) \<and> alwaysEncrypted sess_nokey \<and>
   decryptColumn tds_ext (enc_column 0 1) sess_nokey Null = Inl RuntimePanic \<and>
   parseRow_loop tds_ext sess_nokey 0 [enc_column 0 1] [Null] [0xFF, 0xFF] = Inr ([Null], [])"
proof -
  have h: "Reader tds_ext (ti (enc_column 0 1)) [0xFF, 0xFF] None = Inr (Null, [])"
    by (rule Reader_example_null)
  have "parseRow_loop tds_ext sess_nokey 0 [enc_column 0 1] [Null] [0xFF, 0xFF]
      = parseRow_loop tds_ext sess_nokey (Suc 0) [] ([Null][0 := Null]) []"
    by (rule parseRow_null_skips_decryption [OF h])
  moreover have "decryptColumn tds_ext (enc_column 0 1) sess_nokey Null = Inl RuntimePanic"
    by (simp add: decryptColumn_def enc_column_def cek_entry_def sess_nokey_def sess_ae_def)
  ultimately show ?thesis
    using h by (simp add: enc_column_encrypted sess_ae_enabled del: parseRow_loop.simps(2))
qed

section \<open>ENVCHANGE\<close>

text \<open>
  Modelled from the spec: the \<^verbatim>\<open>io.Reader\<close> helpers \<^verbatim>\<open>readByte\<close>, \<^verbatim>\<open>readUshort\<close>,
  \<^verbatim>\<open>readBVarChar\<close>, \<^verbatim>\<open>readBVarByte\<close> and \<^verbatim>\<open>readUsVarChar\<close> are declared outside
  \<^verbatim>\<open>token.go\<close>. They return an error (\<open>None\<close>) when the reader has too few bytes. A
  \<^verbatim>\<open>B_VARCHAR\<close> is a one-byte character count and two bytes for each character, a
  \<^verbatim>\<open>US_VARCHAR\<close> has a two-byte count, a \<^verbatim>\<open>B_VARBYTE\<close> is a one-byte count and that many
  bytes. The reader is the \<^verbatim>\<open>io.LimitedReader\<close> over the buffer: the list of the bytes it
  can still deliver.
\<close>

definition readBytes :: "nat \<Rightarrow> byte list \<Rightarrow> (byte list \<times> byte list) option" where
  "readBytes n r = (if length r < n then None else Some (take n r, drop n r))"

definition readByte :: "byte list \<Rightarrow> (byte \<times> byte list) option" where
  "readByte r = (case r of [] \<Rightarrow> None | b # r' \<Rightarrow> Some (b, r'))"

definition readUshort :: "byte list \<Rightarrow> (16 word \<times> byte list) option" where
  "readUshort r = map_option (\<lambda>(bs, r'). (of_nat (le_nat bs), r')) (readBytes 2 r)"

definition readUint32 :: "byte list \<Rightarrow> (32 word \<times> byte list) option" where
  "readUint32 r = map_option (\<lambda>(bs, r'). (of_nat (le_nat bs), r')) (readBytes 4 r)"

definition readBVarChar :: "byte list \<Rightarrow> (ucs2 \<times> byte list) option" where
  "readBVarChar r =
     Option.bind (readByte r) (\<lambda>(numchars, r1).
     map_option (\<lambda>(bs, r2). (ucs2_units bs, r2)) (readBytes (unat numchars * 2) r1))"

definition readUsVarChar :: "byte list \<Rightarrow> (ucs2 \<times> byte list) option" where
  "readUsVarChar r =
     Option.bind (readUshort r) (\<lambda>(numchars, r1).
     map_option (\<lambda>(bs, r2). (ucs2_units bs, r2)) (readBytes (unat numchars * 2) r1))"

definition readBVarByte :: "byte list \<Rightarrow> (byte list \<times> byte list) option" where
  "readBVarByte r = Option.bind (readByte r) (\<lambda>(n, r1). readBytes (unat n) r1)"

text \<open>An error of a helper goes to \<^verbatim>\<open>badStreamPanic\<close>.\<close>

definition orBadStream :: "'a option \<Rightarrow> error + 'a" where
  "orBadStream m = (case m of None \<Rightarrow> Inl BadStream | Some v \<Rightarrow> Inr v)"

text \<open>
  \<^verbatim>\<open>strconv.Atoi\<close> on the decoded string: an optional sign, then at least one decimal
  digit and nothing else; a value outside the 64-bit \<^verbatim>\<open>int\<close> is an error.
\<close>

definition isDigit :: "16 word \<Rightarrow> bool" where
  "isDigit c \<longleftrightarrow> 0x30 \<le> c \<and> c \<le> 0x39"

definition digitsVal :: "ucs2 \<Rightarrow> int" where
  "digitsVal ds = foldl (\<lambda>acc c. 10 * acc + (int (unat c) - 48)) 0 ds"

definition Atoi :: "ucs2 \<Rightarrow> int option" where
  "Atoi str =
     (let neg = (str \<noteq> [] \<and> hd str = 0x2D);
          ds = (if str \<noteq> [] \<and> (hd str = 0x2D \<or> hd str = 0x2B) then tl str else str)
      in if ds = [] \<or> \<not> list_all isDigit ds then None
         else let v = (if neg then - digitsVal ds else digitsVal ds)
              in if v < - (2 ^ 63) \<or> v > 2 ^ 63 - 1 then None else Some v)"

text \<open>
  Modelled from the spec: \<^verbatim>\<open>ResizeBuffer\<close> is declared outside \<^verbatim>\<open>token.go\<close>; afterwards the
  packet reader reports the new buffer size.
\<close>

definition ResizeBuffer :: "int \<Rightarrow> tdsSession \<Rightarrow> tdsSession" where
  "ResizeBuffer n sess = sess\<lparr>packetSize := n\<rparr>"

text \<open>
  The bodies of the \<^verbatim>\<open>switch\<close> of \<^verbatim>\<open>processEnvChg\<close>, one for each shape of sub-record,
  after the type byte. Each returns the session and what the reader still holds. A
  failed read ends in \<^verbatim>\<open>badStreamPanic\<close> with the error of the read, a transaction id that
  is not eight bytes long in \<^verbatim>\<open>badStreamPanicf\<close>. In the routing record the test
  \<^verbatim>\<open>err != nil || protocol != 0\<close> calls \<^verbatim>\<open>badStreamPanic(err)\<close>: after a successful read of
  a protocol byte other than 0 the error is nil, and the panic carries nil.
  \<open>envIgnored\<close> is the body of the record types marked "currently ignored": two discarded
  \<^verbatim>\<open>B_VARCHAR\<close>s.
\<close>

definition envIgnored :: "byte list \<Rightarrow> tdsSession \<Rightarrow> error + (tdsSession \<times> byte list)" where
  "envIgnored r sess =
     bind_res (orBadStream (readBVarChar r)) (\<lambda>(new, r1).
     bind_res (orBadStream (readBVarChar r1)) (\<lambda>(old, r2). Inr (sess, r2)))"

definition envDatabase :: "byte list \<Rightarrow> tdsSession \<Rightarrow> error + (tdsSession \<times> byte list)" where
  "envDatabase r sess =
     bind_res (orBadStream (readBVarChar r)) (\<lambda>(new, r1).
     bind_res (orBadStream (readBVarChar r1)) (\<lambda>(old, r2).
     Inr (sess\<lparr>database := new\<rparr>, r2)))"

definition envPacketSize :: "byte list \<Rightarrow> tdsSession \<Rightarrow> error + (tdsSession \<times> byte list)" where
  "envPacketSize r sess =
     bind_res (orBadStream (readBVarChar r)) (\<lambda>(packetsize, r1).
     bind_res (orBadStream (readBVarChar r1)) (\<lambda>(old, r2).
     (case Atoi packetsize of
        None \<Rightarrow> Inl BadStream
      | Some packetsizei \<Rightarrow> Inr (ResizeBuffer packetsizei sess, r2))))"

definition envSqlCollation :: "byte list \<Rightarrow> tdsSession \<Rightarrow> error + (tdsSession \<times> byte list)" where
  "envSqlCollation r sess =
     bind_res (orBadStream (readByte r)) (\<lambda>(collationSize, r1).
     if collationSize \<noteq> 5 then Inl BadStream
     else
       bind_res (orBadStream (readUint32 r1)) (\<lambda>(info, r2).
       bind_res (orBadStream (readByte r2)) (\<lambda>(sortID, r3).
       bind_res (orBadStream (readBVarChar r3)) (\<lambda>(old, r4).
       Inr (sess, r4)))))"

definition envBeginTran :: "byte list \<Rightarrow> tdsSession \<Rightarrow> error + (tdsSession \<times> byte list)" where
  "envBeginTran r sess =
     bind_res (orBadStream (readBVarByte r)) (\<lambda>(tid, r1).
     if length tid \<noteq> 8 then Inl BadStream
     else
       bind_res (orBadStream (readBVarByte r1)) (\<lambda>(old, r2).
       Inr (sess\<lparr>tranid := of_nat (le_nat tid)\<rparr>, r2)))"

definition envEndTran :: "byte list \<Rightarrow> tdsSession \<Rightarrow> error + (tdsSession \<times> byte list)" where
  "envEndTran r sess =
     bind_res (orBadStream (readBVarByte r)) (\<lambda>(new, r1).
     bind_res (orBadStream (readBVarByte r1)) (\<lambda>(old, r2).
     Inr (sess\<lparr>tranid := 0\<rparr>, r2)))"

definition envMirrorPartner :: "byte list \<Rightarrow> tdsSession \<Rightarrow> error + (tdsSession \<times> byte list)" where
  "envMirrorPartner r sess =
     bind_res (orBadStream (readBVarChar r)) (\<lambda>(new, r1).
     bind_res (orBadStream (readBVarChar r1)) (\<lambda>(old, r2).
     Inr (sess\<lparr>partner := new\<rparr>, r2)))"

definition envRouting :: "byte list \<Rightarrow> tdsSession \<Rightarrow> error + (tdsSession \<times> byte list)" where
  "envRouting r sess =
     bind_res (orBadStream (readUshort r)) (\<lambda>(valueLength, r1).
     bind_res (orBadStream (readByte r1)) (\<lambda>(protocol, r2).
     if protocol \<noteq> 0 then Inl NilPanic
     else
       bind_res (orBadStream (readUshort r2)) (\<lambda>(newPort, r3).
       bind_res (orBadStream (readUsVarChar r3)) (\<lambda>(newServer, r4).
       bind_res (orBadStream (readUshort r4)) (\<lambda>(old, r5).
       Inr (sess\<lparr>routedServer := newServer, routedPort := newPort\<rparr>, r5))))))"

text \<open>
  The \<^verbatim>\<open>switch\<close> on the type of the sub-record, with the constants of the source:
  \<^verbatim>\<open>envTypDatabase\<close> = 1, \<^verbatim>\<open>envTypLanguage\<close> = 2, \<^verbatim>\<open>envTypCharset\<close> = 3,
  \<^verbatim>\<open>envTypPacketSize\<close> = 4, \<^verbatim>\<open>envSortId\<close> = 5, \<^verbatim>\<open>envSortFlags\<close> = 6, \<^verbatim>\<open>envSqlCollation\<close> = 7,
  \<^verbatim>\<open>envTypBeginTran\<close> = 8, \<^verbatim>\<open>envTypCommitTran\<close> = 9, \<^verbatim>\<open>envTypRollbackTran\<close> = 10,
  \<^verbatim>\<open>envEnlistDTC\<close> = 11, \<^verbatim>\<open>envDefectTran\<close> = 12, \<^verbatim>\<open>envDatabaseMirrorPartner\<close> = 13,
  \<^verbatim>\<open>envPromoteTran\<close> = 15, \<^verbatim>\<open>envTranMgrAddr\<close> = 16, \<^verbatim>\<open>envTranEnded\<close> = 17,
  \<^verbatim>\<open>envResetConnAck\<close> = 18, \<^verbatim>\<open>envStartedInstanceName\<close> = 19, \<^verbatim>\<open>envRouting\<close> = 20.
  \<open>None\<close> is the \<^verbatim>\<open>default\<close> branch, which returns from \<^verbatim>\<open>processEnvChg\<close>.
\<close>

definition envChgRecord ::
  "byte \<Rightarrow> (byte list \<Rightarrow> tdsSession \<Rightarrow> error + (tdsSession \<times> byte list)) option" where
  "envChgRecord envtype =
    (if envtype = 1 then Some envDatabase
     else if envtype = 2 \<or> envtype = 3 then Some envIgnored
     else if envtype = 4 then Some envPacketSize
     else if envtype = 5 \<or> envtype = 6 then Some envIgnored
     else if envtype = 7 then Some envSqlCollation
     else if envtype = 8 then Some envBeginTran
     else if envtype = 9 \<or> envtype = 10 then Some envEndTran
     else if envtype = 11 \<or> envtype = 12 then Some envIgnored
     else if envtype = 13 then Some envMirrorPartner
     else if envtype = 15 \<or> envtype = 16 \<or> envtype = 17 \<or> envtype = 18 \<or> envtype = 19
     then Some envIgnored
     else if envtype = 20 then Some envRouting
     else None)"

lemma readBytes_length: "readBytes n r = Some (bs, r') \<Longrightarrow> length r' \<le> length r"
  by (auto simp: readBytes_def split: if_splits)

lemma readByte_length: "readByte r = Some (b, r') \<Longrightarrow> length r' \<le> length r"
  by (auto simp: readByte_def split: list.splits)

lemma readUshort_length: "readUshort r = Some (w, r') \<Longrightarrow> length r' \<le> length r"
  by (auto simp: readUshort_def dest: readBytes_length)

lemma readUint32_length: "readUint32 r = Some (w, r') \<Longrightarrow> length r' \<le> length r"
  by (auto simp: readUint32_def dest: readBytes_length)

lemma readBVarChar_length: "readBVarChar r = Some (w, r') \<Longrightarrow> length r' \<le> length r"
  by (fastforce simp: readBVarChar_def bind_eq_Some_conv
      dest: readBytes_length readByte_length)

lemma readUsVarChar_length: "readUsVarChar r = Some (w, r') \<Longrightarrow> length r' \<le> length r"
  by (fastforce simp: readUsVarChar_def bind_eq_Some_conv
      dest: readBytes_length readUshort_length)

lemma readBVarByte_length: "readBVarByte r = Some (w, r') \<Longrightarrow> length r' \<le> length r"
  by (fastforce simp: readBVarByte_def bind_eq_Some_conv
      dest: readBytes_length readByte_length)

lemma orBadStream_Inr: "orBadStream m = Inr v \<longleftrightarrow> m = Some v"
  by (simp add: orBadStream_def split: option.splits)

lemmas env_bodies = envIgnored_def envDatabase_def envPacketSize_def envSqlCollation_def
  envBeginTran_def envEndTran_def envMirrorPartner_def envRouting_def

lemma envIgnored_length: "envIgnored r s = Inr (s', r') \<Longrightarrow> length r' \<le> length r"
  by (fastforce simp: envIgnored_def bind_res_eq_Inr orBadStream_Inr dest: readBVarChar_length)

lemma envDatabase_length: "envDatabase r s = Inr (s', r') \<Longrightarrow> length r' \<le> length r"
  by (fastforce simp: envDatabase_def bind_res_eq_Inr orBadStream_Inr dest: readBVarChar_length)

lemma envPacketSize_length: "envPacketSize r s = Inr (s', r') \<Longrightarrow> length r' \<le> length r"
  by (fastforce simp: envPacketSize_def bind_res_eq_Inr orBadStream_Inr split: option.splits dest: readBVarChar_length)

lemma envSqlCollation_length: "envSqlCollation r s = Inr (s', r') \<Longrightarrow> length r' \<le> length r"
  by (fastforce simp: envSqlCollation_def bind_res_eq_Inr orBadStream_Inr split: if_splits
     dest: readBVarChar_length readByte_length readUint32_length)

lemma envBeginTran_length: "envBeginTran r s = Inr (s', r') \<Longrightarrow> length r' \<le> length r"
  by (fastforce simp: envBeginTran_def bind_res_eq_Inr orBadStream_Inr split: if_splits
     dest: readBVarByte_length)

lemma envEndTran_length: "envEndTran r s = Inr (s', r') \<Longrightarrow> length r' \<le> length r"
  by (fastforce simp: envEndTran_def bind_res_eq_Inr orBadStream_Inr dest: readBVarByte_length)

lemma envMirrorPartner_length: "envMirrorPartner r s = Inr (s', r') \<Longrightarrow> length r' \<le> length r"
  by (fastforce simp: envMirrorPartner_def bind_res_eq_Inr orBadStream_Inr dest: readBVarChar_length)

lemma envRouting_length: "envRouting r s = Inr (s', r') \<Longrightarrow> length r' \<le> length r"
  by (fastforce simp: envRouting_def bind_res_eq_Inr orBadStream_Inr split: if_splits
     dest: readUshort_length readByte_length readUsVarChar_length)

lemma envChgRecord_length:
  "envChgRecord t = Some body \<Longrightarrow> body r s = Inr (s', r') \<Longrightarrow> length r' \<le> length r"
  by (auto simp: envChgRecord_def split: if_splits
      dest: envIgnored_length envDatabase_length envPacketSize_length envSqlCollation_length
        envBeginTran_length envEndTran_length envMirrorPartner_length envRouting_length)

text \<open>
  \<^verbatim>\<open>processEnvChg\<close>: the two-byte size, then sub-records from the limited reader until
  the read of a type byte returns \<^verbatim>\<open>io.EOF\<close> (the reader has no byte left) or a type is
  unknown. The bytes that the limited reader did not deliver stay in the buffer.
\<close>

function processEnvChg_loop :: "byte list \<Rightarrow> tdsSession \<Rightarrow> error + (tdsSession \<times> byte list)" where
  "processEnvChg_loop r sess =
     (case readByte r of
        None \<Rightarrow> Inr (sess, r)
      | Some (envtype, r1) \<Rightarrow>
          (case envChgRecord envtype of
             None \<Rightarrow> Inr (sess, r1)
           | Some body \<Rightarrow>
               bind_res (body r1 sess) (\<lambda>(sess', r2). processEnvChg_loop r2 sess')))"
  by pat_completeness auto
termination
proof (relation "measure (\<lambda>(r, sess). length r)")
  show "wf (measure (\<lambda>(r, sess). length r))" by simp
next
  fix r :: "byte list" and sess :: tdsSession and x2 envtype r1 body x sess' r2
  assume "readByte r = Some x2" "(envtype, r1) = x2" "envChgRecord envtype = Some body"
    "body r1 sess = Inr x" "(sess', r2) = x"
  then have "r = envtype # r1" "length r2 \<le> length r1"
    using envChgRecord_length [of envtype body r1 sess sess' r2]
    by (auto simp: readByte_def split: list.splits)
  then show "((r2, sess'), (r, sess)) \<in> measure (\<lambda>(r, sess). length r)" by simp
qed

definition processEnvChg :: "tdsSession \<Rightarrow> tdsBuffer \<Rightarrow> error + (tdsSession \<times> tdsBuffer)" where
  "processEnvChg sess buf =
     bind_res (buf_uint16 buf) (\<lambda>(sz, b1).
     bind_res (processEnvChg_loop (take (unat sz) b1) sess) (\<lambda>(sess', rest).
     Inr (sess', rest @ drop (unat sz) b1)))"

subsection \<open>Idempotence\<close>

text \<open>
  Two runs of the decoder over the same bytes, from the sessions \<open>s\<close> and \<open>t\<close>, ending in
  \<open>s'\<close> and \<open>t'\<close>, have the same effect when every field is either kept in both runs or
  set to the same value in both.
\<close>

definition kept_or_set :: "'a \<Rightarrow> 'a \<Rightarrow> 'a \<Rightarrow> 'a \<Rightarrow> bool" where
  "kept_or_set a a' b b' \<longleftrightarrow> (a' = a \<and> b' = b) \<or> b' = a'"

definition same_effect :: "tdsSession \<Rightarrow> tdsSession \<Rightarrow> tdsSession \<Rightarrow> tdsSession \<Rightarrow> bool" where
  "same_effect s s' t t' \<longleftrightarrow>
     kept_or_set (database s) (database s') (database t) (database t') \<and>
     kept_or_set (tranid s) (tranid s') (tranid t) (tranid t') \<and>
     kept_or_set (partner s) (partner s') (partner t) (partner t') \<and>
     kept_or_set (routedServer s) (routedServer s') (routedServer t) (routedServer t') \<and>
     kept_or_set (routedPort s) (routedPort s') (routedPort t) (routedPort t') \<and>
     kept_or_set (packetSize s) (packetSize s') (packetSize t) (packetSize t') \<and>
     alwaysEncrypted s' = alwaysEncrypted s \<and> alwaysEncrypted t' = alwaysEncrypted t \<and>
     alwaysEncryptedSettings s' = alwaysEncryptedSettings s \<and>
     alwaysEncryptedSettings t' = alwaysEncryptedSettings t"

lemma kept_or_set_simps [simp]:
  "kept_or_set a a b b"
  "kept_or_set a v b v"
  by (simp_all add: kept_or_set_def)

lemma kept_or_set_trans:
  "kept_or_set a a' b b' \<Longrightarrow> kept_or_set a' a'' b' b'' \<Longrightarrow> kept_or_set a a'' b b''"
  by (auto simp: kept_or_set_def)

lemma kept_or_set_fixpoint: "kept_or_set a a' a' b' \<Longrightarrow> b' = a'"
  by (auto simp: kept_or_set_def)

lemma same_effect_refl: "same_effect s s t t"
  by (simp add: same_effect_def)

lemma same_effect_trans:
  "same_effect s s' t t' \<Longrightarrow> same_effect s' s'' t' t'' \<Longrightarrow> same_effect s s'' t t''"
  unfolding same_effect_def
  by (elim conjE, intro conjI) (erule (1) kept_or_set_trans | simp)+

lemma same_effect_fixpoint:
  assumes "same_effect s s' s' t'"
  shows "t' = s'"
proof (rule tdsSession.equality)
  show "database t' = database s'" "tranid t' = tranid s'" "partner t' = partner s'"
    "routedServer t' = routedServer s'" "routedPort t' = routedPort s'"
    "packetSize t' = packetSize s'"
    using assms unfolding same_effect_def by (blast dest: kept_or_set_fixpoint)+
  show "alwaysEncrypted t' = alwaysEncrypted s'"
    "alwaysEncryptedSettings t' = alwaysEncryptedSettings s'"
    using assms unfolding same_effect_def by simp_all
  show "tdsSession.more t' = tdsSession.more s'" by simp
qed

lemma envIgnored_eff:
  "envIgnored r s = Inr (s', r') \<Longrightarrow> \<exists>t'. envIgnored r t = Inr (t', r') \<and> same_effect s s' t t'"
  by (auto simp: envIgnored_def bind_res_eq_Inr orBadStream_Inr same_effect_def)

lemma envDatabase_eff:
  "envDatabase r s = Inr (s', r') \<Longrightarrow> \<exists>t'. envDatabase r t = Inr (t', r') \<and> same_effect s s' t t'"
  by (auto simp: envDatabase_def bind_res_eq_Inr orBadStream_Inr same_effect_def)

lemma envPacketSize_eff:
  "envPacketSize r s = Inr (s', r') \<Longrightarrow> \<exists>t'. envPacketSize r t = Inr (t', r') \<and> same_effect s s' t t'"
  by (auto simp: envPacketSize_def bind_res_eq_Inr orBadStream_Inr same_effect_def ResizeBuffer_def
      split: option.splits)

lemma envSqlCollation_eff:
  "envSqlCollation r s = Inr (s', r') \<Longrightarrow> \<exists>t'. envSqlCollation r t = Inr (t', r') \<and> same_effect s s' t t'"
  by (auto simp: envSqlCollation_def bind_res_eq_Inr orBadStream_Inr same_effect_def
      split: if_splits)

lemma envBeginTran_eff:
  "envBeginTran r s = Inr (s', r') \<Longrightarrow> \<exists>t'. envBeginTran r t = Inr (t', r') \<and> same_effect s s' t t'"
  by (auto simp: envBeginTran_def bind_res_eq_Inr orBadStream_Inr same_effect_def
      split: if_splits)

lemma envEndTran_eff:
  "envEndTran r s = Inr (s', r') \<Longrightarrow> \<exists>t'. envEndTran r t = Inr (t', r') \<and> same_effect s s' t t'"
  by (auto simp: envEndTran_def bind_res_eq_Inr orBadStream_Inr same_effect_def)

lemma envMirrorPartner_eff:
  "envMirrorPartner r s = Inr (s', r') \<Longrightarrow> \<exists>t'. envMirrorPartner r t = Inr (t', r') \<and> same_effect s s' t t'"
  by (auto simp: envMirrorPartner_def bind_res_eq_Inr orBadStream_Inr same_effect_def)

lemma envRouting_eff:
  "envRouting r s = Inr (s', r') \<Longrightarrow> \<exists>t'. envRouting r t = Inr (t', r') \<and> same_effect s s' t t'"
  by (auto simp: envRouting_def bind_res_eq_Inr orBadStream_Inr same_effect_def
      split: if_splits)

lemma env_body_same_effect:
  assumes "envChgRecord ty = Some body" "body r s = Inr (s', r')"
  shows "\<exists>t'. body r t = Inr (t', r') \<and> same_effect s s' t t'"
proof -
  have "body = envIgnored \<or> body = envDatabase \<or> body = envPacketSize \<or> body = envSqlCollation
      \<or> body = envBeginTran \<or> body = envEndTran \<or> body = envMirrorPartner \<or> body = envRouting"
    using assms(1) by (auto simp: envChgRecord_def split: if_splits)
  then show ?thesis
    using assms(2)
    by (elim disjE; hypsubst)
      (erule envIgnored_eff envDatabase_eff envPacketSize_eff envSqlCollation_eff
        envBeginTran_eff envEndTran_eff envMirrorPartner_eff envRouting_eff)+
qed

lemma processEnvChg_loop_same_effect:
  "processEnvChg_loop r s = Inr (s', r') \<Longrightarrow>
   \<exists>t'. processEnvChg_loop r t = Inr (t', r') \<and> same_effect s s' t t'"
proof (induction r s arbitrary: t rule: processEnvChg_loop.induct)
  case (1 r sess)
  show ?case
  proof (cases "readByte r")
    case None
    with "1.prems" show ?thesis by (auto simp: same_effect_refl)
  next
    case (Some p)
    obtain envtype r1 where p: "p = (envtype, r1)" by (cases p)
    show ?thesis
    proof (cases "envChgRecord envtype")
      case None
      with Some p "1.prems" show ?thesis by (auto simp: same_effect_refl)
    next
      case body: (Some body)
      from "1.prems" Some p body obtain s1 r2 where
        b: "body r1 sess = Inr (s1, r2)" and l: "processEnvChg_loop r2 s1 = Inr (s', r')"
        by (auto simp: bind_res_eq_Inr)
      from env_body_same_effect [OF body b, of t] obtain t1 where
        tb: "body r1 t = Inr (t1, r2)" and e1: "same_effect sess s1 t t1" by blast
      from "1.IH" [OF Some p [symmetric] body b refl l, of t1] obtain t' where
        tl: "processEnvChg_loop r2 t1 = Inr (t', r')" and e2: "same_effect s1 s' t1 t'" by blast
      have "processEnvChg_loop r t = Inr (t', r')"
        using Some p body tb tl by simp
      with same_effect_trans [OF e1 e2] show ?thesis by blast
    qed
  qed
qed

text \<open>
  C7. An ENVCHANGE stream that the decoder accepts, applied again to the session it
  produced, is accepted again, leaves the same bytes in the buffer and yields the same
  session: database, transaction id, partner, routed server and port and packet size
  (and the fields the decoder never writes).
\<close>

theorem processEnvChg_idempotent:
  "processEnvChg sess buf = Inr (sess1, buf1) \<Longrightarrow> processEnvChg sess1 buf = Inr (sess1, buf1)"
proof -
  assume a: "processEnvChg sess buf = Inr (sess1, buf1)"
  then obtain sz b1 rest where
    h: "buf_uint16 buf = Inr (sz, b1)"
       "processEnvChg_loop (take (unat sz) b1) sess = Inr (sess1, rest)"
       "buf1 = rest @ drop (unat sz) b1"
    by (auto simp: processEnvChg_def bind_res_eq_Inr)
  from processEnvChg_loop_same_effect [OF h(2), of sess1] obtain t' where
    t: "processEnvChg_loop (take (unat sz) b1) sess1 = Inr (t', rest)"
       "same_effect sess sess1 sess1 t'" by blast
  from same_effect_fixpoint [OF t(2)] have "t' = sess1" .
  with t(1) h show ?thesis by (simp add: processEnvChg_def)
qed

text \<open>
  An ENVCHANGE of two sub-records: the database \<^verbatim>\<open>db\<close> and the packet size \<^verbatim>\<open>512\<close>.
\<close>

lemma readBytes_eval:
  "readBytes 0 r = Some ([], r)"
  "readBytes (numeral k) (b # r) = map_option (\<lambda>(bs, r'). (b # bs, r')) (readBytes (pred_numeral k) r)"
  "readBytes (numeral k) [] = None"
  "readBytes 1 (b # r) = Some ([b], r)"
  "readBytes 1 [] = None"
  "readBytes (Suc n) (b # r) = map_option (\<lambda>(bs, r'). (b # bs, r')) (readBytes n r)"
  "readBytes (Suc n) [] = None"
  by (simp_all add: readBytes_def numeral_eq_Suc)

lemma readByte_eval: "readByte (b # r) = Some (b, r)" "readByte [] = None"
  by (simp_all add: readByte_def)

definition envchg_bytes :: "byte list" where
  "envchg_bytes = [0x10, 0x00,  0x01, 0x02, 0x64, 0x00, 0x62, 0x00, 0x00,
                   0x04, 0x03, 0x35, 0x00, 0x31, 0x00, 0x32, 0x00, 0x00]"

lemma Atoi_512: "Atoi [0x35, 0x31, 0x32] = Some 512"
  by (simp add: Atoi_def isDigit_def digitsVal_def)

lemma processEnvChg_example:
  "processEnvChg sess_ae envchg_bytes = Inr (sess_ae\<lparr>database := [0x64, 0x62], packetSize := 512\<rparr>, [])"
  by (simp add: processEnvChg_def envchg_bytes_def buf_eval readByte_eval envChgRecord_def
      envDatabase_def envPacketSize_def readBVarChar_def readBytes_eval orBadStream_def
      Atoi_512 ResizeBuffer_def)

theorem processEnvChg_idempotent_witness:
  "processEnvChg sess_ae envchg_bytes
     = Inr (sess_ae\<lparr>database := [0x64, 0x62], packetSize := 512\<rparr>, []) \<and>
   processEnvChg (sess_ae\<lparr>database := [0x64, 0x62], packetSize := 512\<rparr>) envchg_bytes
     = Inr (sess_ae\<lparr>database := [0x64, 0x62], packetSize := 512\<rparr>, [])"
  using processEnvChg_idempotent [OF processEnvChg_example] processEnvChg_example by simp

section \<open>The remaining tokens\<close>

text \<open>
  Modelled from the spec: \<^verbatim>\<open>tdsBuffer.BVarChar\<close> and \<^verbatim>\<open>tdsBuffer.UsVarChar\<close> are declared
  outside \<^verbatim>\<open>token.go\<close>: a character count of one or two bytes, then two bytes for each
  character; a short read is BadStream.
\<close>

definition buf_BVarChar :: "tdsBuffer \<Rightarrow> error + (ucs2 \<times> tdsBuffer)" where
  "buf_BVarChar r =
     bind_res (buf_byte r) (\<lambda>(n, r1).
     bind_res (buf_ReadFull (unat n * 2) r1) (\<lambda>(bs, r2). Inr (ucs2_units bs, r2)))"

definition buf_UsVarChar :: "tdsBuffer \<Rightarrow> error + (ucs2 \<times> tdsBuffer)" where
  "buf_UsVarChar r =
     bind_res (buf_uint16 r) (\<lambda>(n, r1).
     bind_res (buf_ReadFull (unat n * 2) r1) (\<lambda>(bs, r2). Inr (ucs2_units bs, r2)))"

record Error =
  Number :: "32 word"
  State :: byte
  Class :: byte
  Message :: ucs2
  ServerName :: ucs2
  ProcName :: ucs2
  LineNo :: "32 word"

record doneStruct =
  Status :: "16 word"
  CurCmd :: "16 word"
  RowCount :: "64 word"
  errors :: "Error list"

record loginAckStruct =
  Interface :: byte
  TDSVersion :: "32 word"
  ProgName :: ucs2
  ProgVer :: "32 word"

record namedValue =
  Name :: ucs2
  Value :: cell

definition doneMore :: "16 word" where "doneMore = 1"
definition doneError :: "16 word" where "doneError = 2"
definition doneCount :: "16 word" where "doneCount = 0x10"
definition doneAttn :: "16 word" where "doneAttn = 0x20"
definition doneSrvError :: "16 word" where "doneSrvError = 0x100"

definition isError :: "doneStruct \<Rightarrow> bool" where
  "isError d \<longleftrightarrow> Status d AND doneError \<noteq> 0 \<or> length (errors d) > 0"

definition parseReturnStatus :: "tdsBuffer \<Rightarrow> error + (32 word \<times> tdsBuffer)" where
  "parseReturnStatus r = buf_int32 r"

fun readColIds :: "nat \<Rightarrow> tdsBuffer \<Rightarrow> error + (16 word list \<times> tdsBuffer)" where
  "readColIds 0 r = Inr ([], r)"
| "readColIds (Suc n) r =
     bind_res (buf_uint16 r) (\<lambda>(c, r1).
     bind_res (readColIds n r1) (\<lambda>(cs, r2). Inr (c # cs, r2)))"

definition parseOrder :: "tdsBuffer \<Rightarrow> error + (16 word list \<times> tdsBuffer)" where
  "parseOrder r = bind_res (buf_uint16 r) (\<lambda>(len, r1). readColIds (unat len div 2) r1)"

definition parseDone :: "tdsBuffer \<Rightarrow> error + (doneStruct \<times> tdsBuffer)" where
  "parseDone r =
     bind_res (buf_uint16 r) (\<lambda>(status, r1).
     bind_res (buf_uint16 r1) (\<lambda>(curCmd, r2).
     bind_res (buf_uint64 r2) (\<lambda>(rowCount, r3).
     Inr (\<lparr>Status = status, CurCmd = curCmd, RowCount = rowCount, errors = []\<rparr>, r3))))"

definition parseDoneInProc :: "tdsBuffer \<Rightarrow> error + (doneStruct \<times> tdsBuffer)" where
  "parseDoneInProc r =
     bind_res (buf_uint16 r) (\<lambda>(status, r1).
     bind_res (buf_uint16 r1) (\<lambda>(curCmd, r2).
     bind_res (buf_uint64 r2) (\<lambda>(rowCount, r3).
     Inr (\<lparr>Status = status, CurCmd = curCmd, RowCount = rowCount, errors = []\<rparr>, r3))))"

definition parseSSPIMsg :: "tdsBuffer \<Rightarrow> error + (byte list \<times> tdsBuffer)" where
  "parseSSPIMsg r = bind_res (buf_uint16 r) (\<lambda>(sz, r1). buf_ReadFull (unat sz) r1)"

definition be_uint32 :: "byte list \<Rightarrow> 32 word" where
  "be_uint32 bs = of_nat (foldl (\<lambda>acc b. 256 * acc + unat b) 0 (take 4 bs))"

text \<open>
  \<^verbatim>\<open>parseLoginAck\<close> indexes the block it read without a check: \<^verbatim>\<open>buf[0]\<close>, the four bytes
  of \<^verbatim>\<open>buf[1:]\<close>, \<^verbatim>\<open>buf[1+4]\<close>, the slice up to \<^verbatim>\<open>1+4+1+prognamelen*2\<close> (a \<^verbatim>\<open>uint8\<close> sum)
  and the four bytes of \<^verbatim>\<open>buf[size-4:]\<close>; each is a runtime panic when out of range.
\<close>

definition parseLoginAck :: "tdsBuffer \<Rightarrow> error + (loginAckStruct \<times> tdsBuffer)" where
  "parseLoginAck r =
     bind_res (buf_uint16 r) (\<lambda>(sz, r1).
     bind_res (buf_ReadFull (unat sz) r1) (\<lambda>(buf, r2).
       if length buf < 1 then Inl RuntimePanic
       else if length buf < 1 + 4 then Inl RuntimePanic
       else if length buf < 1 + 4 + 1 then Inl RuntimePanic
       else
         let prognamelen = buf ! (1 + 4);
             hi = (1 + 4 + 1 + prognamelen * 2 :: byte)
         in if unat hi < 1 + 4 + 1 \<or> unat hi > length buf then Inl RuntimePanic
            else
              (case ucs22str (take (unat hi - 6) (drop 6 buf)) of
                 Inl e \<Rightarrow> Inl BadStream
               | Inr name \<Rightarrow>
                   Inr (\<lparr>Interface = buf ! 0, TDSVersion = be_uint32 (drop 1 buf),
                         ProgName = name,
                         ProgVer = be_uint32 (drop (unat (sz - 4)) buf)\<rparr>, r2))))"

definition parseError72 :: "tdsBuffer \<Rightarrow> error + (Error \<times> tdsBuffer)" where
  "parseError72 r =
     bind_res (buf_uint16 r) (\<lambda>(len, r1).
     bind_res (buf_int32 r1) (\<lambda>(number, r2).
     bind_res (buf_byte r2) (\<lambda>(state, r3).
     bind_res (buf_byte r3) (\<lambda>(cls, r4).
     bind_res (buf_UsVarChar r4) (\<lambda>(message, r5).
     bind_res (buf_BVarChar r5) (\<lambda>(serverName, r6).
     bind_res (buf_BVarChar r6) (\<lambda>(procName, r7).
     bind_res (buf_int32 r7) (\<lambda>(lineNo, r8).
     Inr (\<lparr>Number = number, State = state, Class = cls, Message = message,
           ServerName = serverName, ProcName = procName, LineNo = lineNo\<rparr>, r8)))))))))"

definition parseInfo :: "tdsBuffer \<Rightarrow> error + (Error \<times> tdsBuffer)" where
  "parseInfo r =
     bind_res (buf_uint16 r) (\<lambda>(len, r1).
     bind_res (buf_int32 r1) (\<lambda>(number, r2).
     bind_res (buf_byte r2) (\<lambda>(state, r3).
     bind_res (buf_byte r3) (\<lambda>(cls, r4).
     bind_res (buf_UsVarChar r4) (\<lambda>(message, r5).
     bind_res (buf_BVarChar r5) (\<lambda>(serverName, r6).
     bind_res (buf_BVarChar r6) (\<lambda>(procName, r7).
     bind_res (buf_int32 r7) (\<lambda>(lineNo, r8).
     Inr (\<lparr>Number = number, State = state, Class = cls, Message = message,
           ServerName = serverName, ProcName = procName, LineNo = lineNo\<rparr>, r8)))))))))"

definition parseReturnValue ::
  "ext \<Rightarrow> tdsBuffer \<Rightarrow> tdsSession \<Rightarrow> error + (namedValue \<times> tdsBuffer)" where
  "parseReturnValue x r s =
     bind_res (buf_uint16 r) (\<lambda>(paramOrdinal, r1).
     bind_res (buf_BVarChar r1) (\<lambda>(name, r2).
     bind_res (buf_byte r2) (\<lambda>(status, r3).
     bind_res (getBaseTypeInfo r3 True) (\<lambda>(baseTi, r4).
     bind_res (if alwaysEncrypted s
               then bind_res (parseCryptoMetadata x r4 None) (\<lambda>(cm, r5). Inr (Some cm, r5))
               else Inr (None, r4)) (\<lambda>(cmo, r5).
     bind_res (readTypeInfo x r5 (TypeId baseTi) cmo) (\<lambda>(ti2, r6).
     bind_res (Reader x ti2 r6 cmo) (\<lambda>(v, r7).
     Inr (\<lparr>Name = name, Value = v\<rparr>, r7))))))))"

section \<open>The stream reader\<close>

definition tokenReturnStatus :: byte where "tokenReturnStatus = 121"
definition tokenColMetadata :: byte where "tokenColMetadata = 129"
definition tokenOrder :: byte where "tokenOrder = 169"
definition tokenError :: byte where "tokenError = 170"
definition tokenInfo :: byte where "tokenInfo = 171"
definition tokenReturnValue :: byte where "tokenReturnValue = 0xAC"
definition tokenLoginAck :: byte where "tokenLoginAck = 173"
definition tokenFeatureExtAck :: byte where "tokenFeatureExtAck = 174"
definition tokenRow :: byte where "tokenRow = 209"
definition tokenNbcRow :: byte where "tokenNbcRow = 210"
definition tokenEnvChange :: byte where "tokenEnvChange = 227"
definition tokenSSPI :: byte where "tokenSSPI = 237"
definition tokenFedAuthInfo :: byte where "tokenFedAuthInfo = 238"
definition tokenDone :: byte where "tokenDone = 253"
definition tokenDoneProc :: byte where "tokenDoneProc = 254"
definition tokenDoneInProc :: byte where "tokenDoneInProc = 255"

text \<open>
  Modelled from the spec: \<^verbatim>\<open>packReply\<close> is a constant declared outside \<^verbatim>\<open>token.go\<close>, the
  TDS packet type of a tabular result.
\<close>

definition packReply :: byte where "packReply = 4"

text \<open>
  The values sent on the token channel, Go's \<^verbatim>\<open>tokenStruct\<close>: one constructor for each
  dynamic type. \<open>TError\<close> is a value sent as an error or as a recovered panic value; the
  value of a recovered string panic is a Go string, not an error.
\<close>

datatype tokenStruct =
    TReturnStatus "32 word"
  | TLoginAck loginAckStruct
  | TFeatureExtAck featureExtAck
  | TOrder "16 word list"
  | TDoneInProc doneStruct
  | TDone doneStruct
  | TColumns "columnStruct list"
  | TRow "cell list"
  | TSSPIMsg "byte list"
  | TFedAuthInfo fedAuthInfoStruct
  | TError error

text \<open>
  One iteration of the loop of \<^verbatim>\<open>processSingleResponse\<close>: the values it sends, and
  whether the function returns or goes on with a new session, column list, error list
  and buffer. \<open>outs\<close> tells which output parameters the caller registered.
\<close>

datatype step =
    Return "tokenStruct list" tdsSession
  | Next "tokenStruct list" tdsSession "columnStruct list" "Error list" tdsBuffer

definition processToken ::
  "ext \<Rightarrow> (ucs2 \<Rightarrow> bool) \<Rightarrow> tdsSession \<Rightarrow> columnStruct list \<Rightarrow> Error list \<Rightarrow> tdsBuffer
   \<Rightarrow> error + step" where
  "processToken x outs sess columns errs buf =
     bind_res (buf_byte buf) (\<lambda>(token, r).
       if token = tokenSSPI then
         bind_res (parseSSPIMsg r) (\<lambda>(m, r'). Inr (Return [TSSPIMsg m] sess))
       else if token = tokenFedAuthInfo then
         bind_res (parseFedAuthInfo r) (\<lambda>(f, r'). Inr (Return [TFedAuthInfo f] sess))
       else if token = tokenReturnStatus then
         bind_res (parseReturnStatus r) (\<lambda>(returnStatus, r').
         Inr (Next [TReturnStatus returnStatus] sess columns errs r'))
       else if token = tokenLoginAck then
         bind_res (parseLoginAck r) (\<lambda>(loginAck, r').
         Inr (Next [TLoginAck loginAck] sess columns errs r'))
       else if token = tokenFeatureExtAck then
         bind_res (parseFeatureExtAck r) (\<lambda>(ack, r').
         Inr (Next [TFeatureExtAck ack] sess columns errs r'))
       else if token = tokenOrder then
         bind_res (parseOrder r) (\<lambda>(order, r').
         Inr (Next [TOrder order] sess columns errs r'))
       else if token = tokenDoneInProc then
         bind_res (parseDoneInProc r) (\<lambda>(done, r').
         Inr (Next [TDoneInProc done] sess columns errs r'))
       else if token = tokenDone \<or> token = tokenDoneProc then
         bind_res (parseDone r) (\<lambda>(done0, r').
         let done = done0\<lparr>errors := errs\<rparr> in
         if Status done AND doneSrvError \<noteq> 0
         then Inr (Return [TError ServerInternalError] sess)
         else if Status done AND doneMore = 0
         then Inr (Return [TDone done] sess)
         else Inr (Next [TDone done] sess columns errs r'))
       else if token = tokenColMetadata then
         bind_res (parseColMetadata72 x r sess) (\<lambda>(columns', sess', r').
         Inr (Next [TColumns columns'] sess' columns' errs r'))
       else if token = tokenRow then
         bind_res (parseRow x r sess columns (replicate (length columns) Null)) (\<lambda>(row, r').
         Inr (Next [TRow row] sess columns errs r'))
       else if token = tokenNbcRow then
         bind_res (parseNbcRow x r sess columns (replicate (length columns) Null)) (\<lambda>(row, r').
         Inr (Next [TRow row] sess columns errs r'))
       else if token = tokenEnvChange then
         bind_res (processEnvChg sess r) (\<lambda>(sess', r').
         Inr (Next [] sess' columns errs r'))
       else if token = tokenError then
         bind_res (parseError72 r) (\<lambda>(err, r').
         Inr (Next [] sess columns (errs @ [err]) r'))
       else if token = tokenInfo then
         bind_res (parseInfo r) (\<lambda>(info, r').
         Inr (Next [] sess columns errs r'))
       else if token = tokenReturnValue then
         bind_res (parseReturnValue x r sess) (\<lambda>(nv, r').
         Inr (Next (if length (Name nv) > 0 \<and> outs (tl (Name nv))
                       \<and> scanIntoOut x (tl (Name nv)) (Value nv)
                    then [TError ScanError] else [])
                sess columns errs r'))
       else Inl BadStream)"

text \<open>
  The loop. The reader blocks on the connection between tokens and need not return; the
  model runs at most \<open>fuel\<close> iterations and yields the values sent so far in order,
  whether the function returned (and closed the channel), and the session. A panic is
  recovered by the deferred function, which sends the recovered value if it is not nil
  and closes the channel.
\<close>

fun processTokens ::
  "ext \<Rightarrow> (ucs2 \<Rightarrow> bool) \<Rightarrow> nat \<Rightarrow> tdsSession \<Rightarrow> columnStruct list \<Rightarrow> Error list
   \<Rightarrow> tdsBuffer \<Rightarrow> tokenStruct list \<times> bool \<times> tdsSession" where
  "processTokens x outs 0 sess columns errs buf = ([], False, sess)"
| "processTokens x outs (Suc fuel) sess columns errs buf =
     (case processToken x outs sess columns errs buf of
        Inl e \<Rightarrow> (if e = NilPanic then [] else [TError e], True, sess)
      | Inr (Return toks sess') \<Rightarrow> (toks, True, sess')
      | Inr (Next toks sess' columns' errs' buf') \<Rightarrow>
          (case processTokens x outs fuel sess' columns' errs' buf' of
             (rest, returned, sess'') \<Rightarrow> (toks @ rest, returned, sess'')))"

text \<open>
  \<^verbatim>\<open>processSingleResponse\<close>: \<open>beginRead\<close> is the result of \<^verbatim>\<open>BeginRead\<close>, the packet type
  or \<open>None\<close> for its error, and \<open>buf\<close> the bytes of the message it started.
\<close>

definition processSingleResponse ::
  "ext \<Rightarrow> (ucs2 \<Rightarrow> bool) \<Rightarrow> byte option \<Rightarrow> tdsSession \<Rightarrow> tdsBuffer \<Rightarrow> nat
   \<Rightarrow> tokenStruct list \<times> bool \<times> tdsSession" where
  "processSingleResponse x outs beginRead sess buf fuel =
     (case beginRead of
        None \<Rightarrow> ([TError BeginReadError], True, sess)
      | Some packet_type \<Rightarrow>
          if packet_type \<noteq> packReply then ([TError BadStream], True, sess)
          else processTokens x outs fuel sess [] [] buf)"

subsection \<open>The end of a response\<close>

text \<open>
  The type assertion \<^verbatim>\<open>tok.(error)\<close>: it holds for the error values, not for a recovered
  panic whose value is a string.
\<close>

definition asError :: "tokenStruct \<Rightarrow> error option" where
  "asError tok =
     (case tok of
        TError e \<Rightarrow> (case e of PanicString m \<Rightarrow> None | _ \<Rightarrow> Some e)
      | _ \<Rightarrow> None)"

text \<open>
  A \<^verbatim>\<open>doneStruct\<close> whose status has the MORE bit clear, and the dynamic types that the
  claim allows for the last value: \<^verbatim>\<open>doneStruct\<close>, \<^verbatim>\<open>sspiMsg\<close>, \<^verbatim>\<open>fedAuthInfoStruct\<close> and
  the error values.
\<close>

definition isFinalDone :: "tokenStruct \<Rightarrow> bool" where
  "isFinalDone t = (case t of TDone d \<Rightarrow> Status d AND doneMore = 0 | _ \<Rightarrow> False)"

definition isTerminalType :: "tokenStruct \<Rightarrow> bool" where
  "isTerminalType t =
     (case t of TDone d \<Rightarrow> True | TSSPIMsg m \<Rightarrow> True | TFedAuthInfo f \<Rightarrow> True
      | TError e \<Rightarrow> asError t \<noteq> None | _ \<Rightarrow> False)"

lemma processToken_Return:
  "processToken x outs sess columns errs buf = Inr (Return toks sess') \<Longrightarrow>
   \<exists>t. toks = [t] \<and> isTerminalType t"
  unfolding processToken_def
  by (auto simp: bind_res_eq_Inr Let_def isTerminalType_def asError_def split: if_splits)

lemma processToken_Next:
  "processToken x outs sess columns errs buf = Inr (Next toks sess' columns' errs' buf') \<Longrightarrow>
   \<forall>t \<in> set toks. \<not> isFinalDone t"
  unfolding processToken_def
  by (auto simp: bind_res_eq_Inr Let_def isFinalDone_def split: if_splits)

text \<open>
  The part of the claim about the Done with the MORE bit clear holds in every run,
  however many tokens have been read: such a Done is never followed by another value,
  and once it is sent the reader has returned and closed the channel.
\<close>

lemma processTokens_final_done_last:
  "processTokens x outs fuel sess columns errs buf = (emitted, returned, sess') \<Longrightarrow>
   (\<forall>t \<in> set (butlast emitted). \<not> isFinalDone t) \<and>
   (\<forall>t \<in> set emitted. isFinalDone t \<longrightarrow> returned)"
proof (induction fuel arbitrary: sess columns errs buf emitted returned sess')
  case 0
  then show ?case by simp
next
  case (Suc fuel)
  show ?case
  proof (cases "processToken x outs sess columns errs buf")
    case (Inl e)
    with Suc.prems show ?thesis by (auto simp: isFinalDone_def split: if_splits)
  next
    case (Inr st)
    show ?thesis
    proof (cases st)
      case (Return toks s1)
      with Inr processToken_Return [of x outs sess columns errs buf toks s1]
      obtain t where "toks = [t]" by auto
      with Suc.prems Inr Return show ?thesis by auto
    next
      case (Next toks s1 columns1 errs1 buf1)
      obtain rest ret s2 where
        rec: "processTokens x outs fuel s1 columns1 errs1 buf1 = (rest, ret, s2)"
        by (cases "processTokens x outs fuel s1 columns1 errs1 buf1") auto
      from Suc.prems Inr Next rec have
        em: "emitted = toks @ rest" and r: "returned = ret" by auto
      from Inr Next processToken_Next [of x outs sess columns errs buf toks s1 columns1 errs1 buf1]
      have nf: "\<forall>t \<in> set toks. \<not> isFinalDone t" by simp
      from Suc.IH [OF rec] have
        ih1: "\<forall>t \<in> set (butlast rest). \<not> isFinalDone t" and
        ih2: "\<forall>t \<in> set rest. isFinalDone t \<longrightarrow> ret" by auto
      have "\<forall>t \<in> set (butlast emitted). \<not> isFinalDone t"
        using nf ih1 em by (auto simp: butlast_append dest: in_set_butlastD)
      moreover have "\<forall>t \<in> set emitted. isFinalDone t \<longrightarrow> returned"
        using nf ih2 em r by auto
      ultimately show ?thesis by blast
    qed
  qed
qed

lemma processSingleResponse_final_done_last:
  "processSingleResponse x outs beginRead sess buf fuel = (emitted, returned, sess') \<Longrightarrow>
   (\<forall>t \<in> set (butlast emitted). \<not> isFinalDone t) \<and>
   (\<forall>t \<in> set emitted. isFinalDone t \<longrightarrow> returned)"
  unfolding processSingleResponse_def
  by (auto simp: isFinalDone_def split: option.splits if_splits
      dest!: processTokens_final_done_last)

lemmas token_ids = tokenSSPI_def tokenFedAuthInfo_def
      tokenReturnStatus_def tokenLoginAck_def tokenFeatureExtAck_def tokenOrder_def
      tokenDoneInProc_def tokenDone_def tokenDoneProc_def tokenColMetadata_def tokenRow_def
      tokenNbcRow_def tokenEnvChange_def tokenError_def tokenInfo_def tokenReturnValue_def

lemma processTokens_numeral:
  "processTokens x outs (numeral k) sess columns errs buf =
     (case processToken x outs sess columns errs buf of
        Inl e \<Rightarrow> (if e = NilPanic then [] else [TError e], True, sess)
      | Inr (Return toks sess') \<Rightarrow> (toks, True, sess')
      | Inr (Next toks sess' columns' errs' buf') \<Rightarrow>
          (case processTokens x outs (pred_numeral k) sess' columns' errs' buf' of
             (rest, returned, sess'') \<Rightarrow> (toks @ rest, returned, sess'')))"
  by (simp add: numeral_eq_Suc)

text \<open>
  A response of two DONE tokens, the first with the MORE bit set: both are sent, the
  second one last.
\<close>

definition done_bytes :: "byte list" where
  "done_bytes = [0xFD,  0x01, 0x00,  0x00, 0x00,  0, 0, 0, 0, 0, 0, 0, 0,
                 0xFD,  0x00, 0x00,  0x00, 0x00,  0, 0, 0, 0, 0, 0, 0, 0]"

lemma processSingleResponse_example:
  "processSingleResponse tds_ext (\<lambda>name. False) (Some packReply) sess_ae done_bytes 3
     = ([TDone \<lparr>Status = 1, CurCmd = 0, RowCount = 0, errors = []\<rparr>,
         TDone \<lparr>Status = 0, CurCmd = 0, RowCount = 0, errors = []\<rparr>], True, sess_ae)"
  by (simp add: processSingleResponse_def done_bytes_def processTokens_numeral
      processToken_def token_ids parseDone_def buf_eval doneSrvError_def doneMore_def)

text \<open>
  An ENVCHANGE token with one routing sub-record whose protocol byte is 1 (value length
  7, port 1433, server \<^verbatim>\<open>s\<close>), and the start of a COLMETADATA token whose CEK table ends
  after the key version of its first entry.
\<close>

definition routing_bytes :: "byte list" where
  "routing_bytes = [0xE3,  0x0C, 0x00,  0x14,  0x07, 0x00,  0x01,  0x99, 0x05,
                    0x01, 0x00, 0x73, 0x00,  0x00, 0x00]"

definition cek_truncated_bytes :: "byte list" where
  "cek_truncated_bytes = [0x81,  0x01, 0x00,  0x01, 0x00,
                          0x01, 0, 0, 0,  0x01, 0, 0, 0,  0x01, 0, 0, 0]"

lemma readUshort_eval: "readUshort (a # b # r) = Some (of_nat (unat a + 256 * unat b), r)"
  by (simp add: readUshort_def readBytes_def le_nat_def)

lemma processEnvChg_routing_example:
  "processEnvChg sess (tl routing_bytes) = Inl NilPanic"
  by (simp add: routing_bytes_def processEnvChg_def buf_eval readByte_eval envChgRecord_def
      envRouting_def readUshort_eval orBadStream_def)

lemma parseColMetadata72_truncated_example:
  "parseColMetadata72 tds_ext (tl cek_truncated_bytes) sess_ae
     = Inl (PanicString ''unable to read cekMdVersion'')"
  by (simp add: cek_truncated_bytes_def parseColMetadata72_def buf_eval sess_ae_enabled
      readCEKTable_def count_unfold readCekTableEntry_def buf_Read_def)

lemma processToken_routing_example:
  "processToken x outs sess columns errs routing_bytes = Inl NilPanic"
  using processEnvChg_routing_example [of sess]
  by (simp add: processToken_def routing_bytes_def buf_byte_Cons token_ids)

lemma processToken_truncated_example:
  "processToken tds_ext outs sess_ae columns errs cek_truncated_bytes
     = Inl (PanicString ''unable to read cekMdVersion'')"
  using parseColMetadata72_truncated_example
  by (simp add: processToken_def cek_truncated_bytes_def buf_byte_Cons token_ids)

lemma processToken_ReturnStatus_example:
  "processToken x outs sess columns errs (0x79 # 0 # 0 # 0 # 0 # r)
     = Inr (Next [TReturnStatus 0] sess columns errs r)"
  by (simp add: processToken_def buf_eval token_ids parseReturnStatus_def)

text \<open>
  C5 (code defect). The claim: when the stream reader has returned, the last value it
  sent is a Done, an SSPI message, a FedAuthInfo or an error value. The deferred function
  of \<^verbatim>\<open>processSingleResponse\<close> sends what \<^verbatim>\<open>recover()\<close> returns, and only if that is not
  nil. The routing record with protocol 1 panics with a nil error: the reader closes the
  channel having sent nothing, or with the value of the token before it (here a return
  status) as the last one. The truncated CEK table panics with a string: the last value
  sent is that string, which is no error value.
\<close>

theorem processSingleResponse_last_value_not_terminal:
  "processSingleResponse tds_ext (\<lambda>name. False) (Some packReply) sess_ae routing_bytes 2
     = ([], True, sess_ae) \<and>
   processSingleResponse tds_ext (\<lambda>name. False) (Some packReply) sess_ae
       (0x79 # 0 # 0 # 0 # 0 # routing_bytes) 2
     = ([TReturnStatus 0], True, sess_ae) \<and>
   \<not> isTerminalType (TReturnStatus 0) \<and>
   processSingleResponse tds_ext (\<lambda>name. False) (Some packReply) sess_ae
       cek_truncated_bytes 2
     = ([TError (PanicString ''unable to read cekMdVersion'')], True, sess_ae) \<and>
   \<not> isTerminalType (TError (PanicString ''unable to read cekMdVersion''))"
  by (simp add: processSingleResponse_def processTokens_numeral processToken_routing_example
      processToken_truncated_example processToken_ReturnStatus_example
      isTerminalType_def asError_def)

text \<open>
  C9. With an empty current column list, as it is before the first COLMETADATA of the
  response, a ROW token (\<^verbatim>\<open>0xD1\<close>) and an NBCROW token (\<^verbatim>\<open>0xD2\<close>) do not abort: the
  reader sends a row of length 0, having consumed the token byte only (the NBCROW bitmap
  has zero bytes), and goes on with the next token.
\<close>

theorem processTokens_row_without_columns:
  "processTokens x outs (Suc fuel) sess [] errs (0xD1 # r) =
     (case processTokens x outs fuel sess [] errs r of
        (rest, returned, sess') \<Rightarrow> (TRow [] # rest, returned, sess')) \<and>
   processTokens x outs (Suc fuel) sess [] errs (0xD2 # r) =
     (case processTokens x outs fuel sess [] errs r of
        (rest, returned, sess') \<Rightarrow> (TRow [] # rest, returned, sess'))"
  by (simp add: processToken_def buf_byte_Cons tokenSSPI_def tokenFedAuthInfo_def
      tokenReturnStatus_def tokenLoginAck_def tokenFeatureExtAck_def tokenOrder_def
      tokenDoneInProc_def tokenDone_def tokenDoneProc_def tokenColMetadata_def tokenRow_def
      tokenNbcRow_def parseRow_def parseNbcRow_def buf_ReadFull_0)

subsection \<open>Rows\<close>

text \<open>
  Both row decoders keep the length of the row they fill and the cells before the
  column they are at.
\<close>

lemma parseRow_loop_keeps:
  "parseRow_loop x s i columns row r = Inr (row', r') \<Longrightarrow>
   length row' = length row \<and> (\<forall>k < i. row' ! k = row ! k)"
proof (induction columns arbitrary: i row r)
  case Nil
  then show ?case by simp
next
  case (Cons column columns)
  from Cons.prems obtain v r1 where
    rec: "parseRow_loop x s (Suc i) columns (row[i := v]) r1 = Inr (row', r')"
    by (auto simp: bind_res_eq_Inr split: if_splits)
  from Cons.IH [OF rec] show ?case by auto
qed

lemma parseNbcRow_loop_keeps:
  "parseNbcRow_loop x s pres i columns row r = Inr (row', r') \<Longrightarrow>
   length row' = length row \<and> (\<forall>k < i. row' ! k = row ! k)"
proof (induction columns arbitrary: i row r)
  case Nil
  then show ?case by simp
next
  case (Cons column columns)
  from Cons.prems obtain v r1 where
    rec: "parseNbcRow_loop x s pres (Suc i) columns (row[i := v]) r1 = Inr (row', r')"
    by (auto simp: bind_res_eq_Inr split: if_splits)
  from Cons.IH [OF rec] show ?case by auto
qed

text \<open>Bit \<open>i\<close> of the null bitmap of an NBCROW, as \<^verbatim>\<open>parseNbcRow\<close> tests it.\<close>

definition nbcNull :: "byte list \<Rightarrow> nat \<Rightarrow> bool" where
  "nbcNull pres i \<longleftrightarrow> (pres ! (i div 8)) AND (push_bit (i mod 8) 1) \<noteq> 0"

text \<open>
  In a decoded NBCROW every column whose bit is set is null; by the definition of the
  loop no byte is read for it.
\<close>

lemma parseNbcRow_loop_null_bits:
  "parseNbcRow_loop x s pres i columns row r = Inr (row', r') \<Longrightarrow>
   i + length columns \<le> length row \<Longrightarrow>
   \<forall>j < length columns. nbcNull pres (i + j) \<longrightarrow> row' ! (i + j) = Null"
proof (induction columns arbitrary: i row r)
  case Nil
  then show ?case by simp
next
  case (Cons column columns)
  from Cons.prems(1) obtain v r1 where
    rec: "parseNbcRow_loop x s pres (Suc i) columns (row[i := v]) r1 = Inr (row', r')" and
    v: "nbcNull pres i \<longrightarrow> v = Null"
    by (auto simp: bind_res_eq_Inr nbcNull_def split: if_splits)
  from parseNbcRow_loop_keeps [OF rec] Cons.prems(2) have i: "row' ! i = v" by simp
  from Cons.IH [OF rec] Cons.prems(2) have
    ih: "\<forall>j < length columns. nbcNull pres (Suc i + j) \<longrightarrow> row' ! (Suc i + j) = Null" by simp
  show ?case
  proof (intro allI impI)
    fix j assume j: "j < length (column # columns)" and n: "nbcNull pres (i + j)"
    show "row' ! (i + j) = Null"
    proof (cases j)
      case 0
      with n v i show ?thesis by simp
    next
      case (Suc j')
      with j n ih show ?thesis by simp
    qed
  qed
qed

text \<open>Every row that the stream reader sends has one cell for each current column.\<close>

lemma processToken_row_length:
  "processToken x outs sess columns errs buf = Inr (Next toks sess' columns' errs' buf') \<Longrightarrow>
   TRow row \<in> set toks \<Longrightarrow> length row = length columns"
  unfolding processToken_def
  by (auto simp: bind_res_eq_Inr Let_def parseRow_def parseNbcRow_def
      split: if_splits dest!: parseRow_loop_keeps parseNbcRow_loop_keeps)

text \<open>
  A ROW in which every encrypted column reads as null is decoded with Always Encrypted
  enabled exactly as with it disabled, whatever the session's keys and the library's
  decryption functions.
\<close>

lemma parseRow_null_cells_need_no_key:
  assumes "parseRow_loop x (s\<lparr>alwaysEncrypted := False\<rparr>) i columns row r = Inr (raw, r')"
    and "i + length columns \<le> length row"
    and "\<forall>j < length columns. isEncrypted (columns ! j) \<longrightarrow> raw ! (i + j) = Null"
  shows "parseRow_loop x s i columns row r = Inr (raw, r')"
  using assms
proof (induction columns arbitrary: i row r)
  case Nil
  then show ?case by simp
next
  case (Cons column columns)
  from Cons.prems(1) obtain content r1 where
    rd: "Reader x (ti column) r None = Inr (content, r1)" and
    rec: "parseRow_loop x (s\<lparr>alwaysEncrypted := False\<rparr>) (Suc i) columns
            (row[i := content]) r1 = Inr (raw, r')"
    by (auto simp: bind_res_eq_Inr split: if_splits)
  from parseRow_loop_keeps [OF rec] Cons.prems(2) have i: "raw ! i = content" by simp
  from Cons.prems(3) have
    "\<forall>j < length columns. isEncrypted (columns ! j) \<longrightarrow> raw ! (Suc i + j) = Null"
    by fastforce
  with Cons.IH [OF rec] Cons.prems(2) have
    ih: "parseRow_loop x s (Suc i) columns (row[i := content]) r1 = Inr (raw, r')" by simp
  from Cons.prems(3) i have "isEncrypted column \<longrightarrow> content = Null" by fastforce
  with rd ih show ?case by auto
qed


section \<open>The consumer: \<^verbatim>\<open>nextToken\<close>\<close>

text \<open>
  The token channel as \<^verbatim>\<open>nextToken\<close> finds it: the values already enqueued, oldest
  first, and whether the reader has closed it.
\<close>

record tokChan =
  queued :: "tokenStruct list"
  closed :: bool

text \<open>
  What the second, blocking \<^verbatim>\<open>select\<close> fires with; the Go runtime chooses among the
  cases that are ready: a value received, the channel found closed, or \<^verbatim>\<open>ctx.Done()\<close>.
\<close>

datatype selected = RecvValue tokenStruct | RecvClosed | CtxDone

datatype nextError =
    TokenError error    \<comment> \<open>an error value taken from the channel\<close>
  | AttentionError      \<comment> \<open>the error of \<^verbatim>\<open>sendAttention\<close>\<close>
  | CtxError            \<comment> \<open>\<^verbatim>\<open>t.ctx.Err()\<close>\<close>
  | NoConfirmation      \<comment> \<open>\<^verbatim>\<open>did not get cancellation confirmation from the server\<close>\<close>

text \<open>
  What \<^verbatim>\<open>nextToken\<close> returns for a value taken from the channel: the error, if the
  type assertion \<^verbatim>\<open>tok.(error)\<close> holds, and the token otherwise.
\<close>

definition deliver :: "tokenStruct \<Rightarrow> tokenStruct option \<times> nextError option" where
  "deliver tok = (case asError tok of Some e \<Rightarrow> (None, Some (TokenError e))
                  | None \<Rightarrow> (Some tok, None))"

text \<open>
  \<^verbatim>\<open>readCancelConfirmation\<close> over the values that a response still sends until its
  channel is closed.
\<close>

fun readCancelConfirmation :: "tokenStruct list \<Rightarrow> bool" where
  "readCancelConfirmation [] = False"
| "readCancelConfirmation (TDone d # toks) =
     (if Status d AND doneAttn \<noteq> 0 then True else readCancelConfirmation toks)"
| "readCancelConfirmation (tok # toks) = readCancelConfirmation toks"

text \<open>
  \<^verbatim>\<open>nextToken\<close>. The first \<^verbatim>\<open>select\<close> has a \<^verbatim>\<open>default\<close> case and receives only if the
  channel has a value or is closed. The second blocks; \<open>sel\<close> is the case it fires with,
  \<open>attnFails\<close> tells whether \<^verbatim>\<open>sendAttention\<close> returns an error, \<open>current\<close> are the
  values the current response still sends and \<open>following\<close> the values of the response
  read after it. The result is the pair that \<^verbatim>\<open>nextToken\<close> returns.
\<close>

definition nextToken ::
  "tokChan \<Rightarrow> selected \<Rightarrow> bool \<Rightarrow> tokenStruct list \<Rightarrow> tokenStruct list
   \<Rightarrow> tokenStruct option \<times> nextError option" where
  "nextToken ch sel attnFails current following =
     (case queued ch of
        tok # q \<Rightarrow> deliver tok
      | [] \<Rightarrow>
          if closed ch then (None, None)
          else
            (case sel of
               RecvValue tok \<Rightarrow> deliver tok
             | RecvClosed \<Rightarrow> (None, None)
             | CtxDone \<Rightarrow>
                 if attnFails then (None, Some AttentionError)
                 else if readCancelConfirmation current then (None, Some CtxError)
                 else if readCancelConfirmation following then (None, Some CtxError)
                 else (None, Some NoConfirmation)))"


text \<open>The same for the end of the stream: a closed, drained channel.\<close>

lemma nextToken_prefers_closed:
  "queued ch = [] \<Longrightarrow> closed ch \<Longrightarrow>
   nextToken ch sel attnFails current following = (None, None)"
  by (simp add: nextToken_def)


end
